theory Spec2Isabelle
  imports Complex_Main
begin

section \<open>Python strings and slices\<close>

text \<open>
  A Python \<open>str\<close> is modelled as a \<open>string\<close>; each \<open>char\<close> stands for one code point
  (the code points below 256), so \<open>length\<close>, \<open>take\<close> and \<open>drop\<close> count what Python's
  \<open>len\<close> and slices count.
\<close>

definition isspace :: "char \<Rightarrow> bool" where
  \<comment> \<open>\<open>str.isspace\<close> on one character: TAB..CR, FS..US, SPACE, NEL, NBSP.\<close>
  "isspace c =
     (let n = (of_char c :: nat)
      in (9 \<le> n \<and> n \<le> 13) \<or> (28 \<le> n \<and> n \<le> 32) \<or> n = 133 \<or> n = 160)"

function split_ws :: "string \<Rightarrow> string list" where
  \<comment> \<open>\<open>text.split()\<close>: maximal runs of non-whitespace characters, in order.\<close>
  "split_ws [] = []"
| "split_ws (c # cs) =
     (if isspace c then split_ws cs
      else (c # takeWhile (\<lambda>x. \<not> isspace x) cs) # split_ws (dropWhile (\<lambda>x. \<not> isspace x) cs))"
  by pat_completeness auto
termination
  by (relation "measure length") (auto simp: length_dropWhile_le less_Suc_eq_le)

fun join_sp :: "string list \<Rightarrow> string" where
  \<comment> \<open>\<open>" ".join(ws)\<close>\<close>
  "join_sp [] = []"
| "join_sp [w] = w"
| "join_sp (w # v # ws) = w @ CHR '' '' # join_sp (v # ws)"

definition py_index :: "nat \<Rightarrow> int \<Rightarrow> nat" where
  \<comment> \<open>How a slice bound is clipped: a negative bound counts from the end.\<close>
  "py_index n i = (if i < 0 then nat (max (int n + i) 0) else min (nat i) n)"

definition py_slice :: "'a list \<Rightarrow> int \<Rightarrow> int \<Rightarrow> 'a list" where
  \<comment> \<open>\<open>xs[i:j]\<close>\<close>
  "py_slice xs i j = take (py_index (length xs) j - py_index (length xs) i) (drop (py_index (length xs) i) xs)"

definition py_upto :: "'a list \<Rightarrow> int \<Rightarrow> 'a list" where
  \<comment> \<open>\<open>xs[:j]\<close>\<close>
  "py_upto xs j = take (py_index (length xs) j) xs"

section \<open>The chunker (rag\_prototype.py)\<close>

text \<open>
  \<^verbatim>\<open>
  def chunk_text(text, max_tokens=200, overlap=50):
      words = text.split()
      if len(words) <= max_tokens:
          return [text]
      chunks = []
      i = 0
      while i < len(words):
          chunk = words[i:i+max_tokens]
          chunks.append(" ".join(chunk))
          i += max_tokens - overlap
      return chunks
  \<close>
  The loop has no bound of its own, so it is a partial function: \<open>None\<close> is the run
  that never returns.
\<close>

partial_function (option) chunk_loop ::
  "string list \<Rightarrow> int \<Rightarrow> int \<Rightarrow> int \<Rightarrow> string list \<Rightarrow> string list option" where
  "chunk_loop words max_tokens overlap i chunks =
     (if i < int (length words)
      then chunk_loop words max_tokens overlap (i + (max_tokens - overlap))
             (chunks @ [join_sp (py_slice words i (i + max_tokens))])
      else Some chunks)"

definition chunk_text :: "string \<Rightarrow> int \<Rightarrow> int \<Rightarrow> string list option" where
  "chunk_text text max_tokens overlap =
     (let words = split_ws text
      in if int (length words) \<le> max_tokens then Some [text]
         else chunk_loop words max_tokens overlap 0 [])"

text \<open>
  The specification's reading of the window positions: the word offsets \<open>0, s, 2s, \<dots>\<close> that
  lie inside a text of \<open>n\<close> words, for the step \<open>s\<close>.
\<close>

definition spec_window_starts :: "nat \<Rightarrow> int \<Rightarrow> int list" where
  "spec_window_starts n s = map (\<lambda>j. int j * s) [0 ..< nat ((int n + s - 1) div s)]"

definition text600 :: string where
  \<comment> \<open>a note of 600 one-letter words\<close>
  "text600 = concat (replicate 600 ''w '')"

section \<open>Exceptions\<close>

datatype py_exn =
    ValueError string
  | TypeError string
  | AttributeError string
  | IndexError string
  | ImportError string
  | RuntimeError string
  | HTTPException nat string

section \<open>The retrieval index (rag\_prototype.py)\<close>

text \<open>
  One entry of \<open>RAGIndex.meta\<close>, as \<open>build\<close> writes it. \<open>patient_id\<close> comes from a
  nullable column, so \<open>m.get("patient_id")\<close> may be \<open>None\<close>.
\<close>

record chunk_meta =
  m_note_id :: int
  m_patient_id :: "int option"
  m_text_snippet :: string
  m_note_date :: string

type_synonym hit = "real \<times> chunk_meta"

text \<open>
  The approximate index is hnswlib's: \<open>knn_query\<close> is taken as it comes, a function of
  the query text (through the embedding model) and of the number of neighbours asked for,
  that either raises or returns labels with their distances.
\<close>

type_synonym knn = "string \<Rightarrow> int \<Rightarrow> py_exn + (nat \<times> real) list"

record rag_index =
  meta :: "chunk_meta list"
  index :: "knn option"

text \<open>
  What \<open>load\<close> and the brute-force path read from the backend folder:
  \<open>rag_meta.json\<close> (the empty list when the file is absent), the hnswlib index when the
  library and \<open>rag_index.bin\<close> are both there and loading does not raise, the number of rows
  of \<open>rag_embeddings.npy\<close> when that file exists, and the cosine similarity of a query text
  with a row of it. The embedding model is taken to return for every query text.
\<close>

record rag_files =
  stored_meta :: "chunk_meta list"
  stored_index :: "knn option"
  stored_embeddings :: "nat option"
  similarity :: "string \<Rightarrow> nat \<Rightarrow> real"

definition load :: "rag_files \<Rightarrow> rag_index \<Rightarrow> rag_index" where
  "load fs r = r\<lparr>meta := stored_meta fs, index := stored_index fs\<rparr>"

definition candidate_indices :: "chunk_meta list \<Rightarrow> int option \<Rightarrow> nat list" where
  \<comment> \<open>\<open>[i for i, m in enumerate(self.meta) if (patient_id is None or m.get("patient_id") == patient_id)]\<close>\<close>
  "candidate_indices ms patient_id =
     filter (\<lambda>i. patient_id = None \<or> m_patient_id (ms ! i) = patient_id) [0 ..< length ms]"

fun collect :: "chunk_meta list \<Rightarrow> nat list \<Rightarrow> int \<Rightarrow> (nat \<times> real) list \<Rightarrow> hit list \<Rightarrow> hit list" where
  \<comment> \<open>the \<open>for lbl, dist in zip(labels, distances)\<close> loop of the approximate path\<close>
  "collect ms cands k [] results = results"
| "collect ms cands k ((lbl, dst) # rest) results =
     (if lbl \<in> set cands
      then (let results' = results @ [(1 - dst, ms ! lbl)]
            in if k \<le> int (length results') then results' else collect ms cands k rest results')
      else collect ms cands k rest results)"

definition sorted_desc :: "hit list \<Rightarrow> hit list" where
  \<comment> \<open>\<open>sorted(xs, key=lambda x: x[0], reverse=True)\<close>: stable, equal scores keep their order\<close>
  "sorted_desc xs = rev (sort_key fst (rev xs))"

definition ensure_loaded :: "rag_files \<Rightarrow> rag_index \<Rightarrow> rag_index" where
  \<comment> \<open>\<open>if not self.meta: self.load()\<close>\<close>
  "ensure_loaded fs r = (if meta r = [] then load fs r else r)"

definition search :: "rag_files \<Rightarrow> rag_index \<Rightarrow> int option \<Rightarrow> string \<Rightarrow> int \<Rightarrow> py_exn + hit list" where
  \<comment> \<open>the body of \<open>query\<close> from its second test of \<open>self.meta\<close> on\<close>
  "search fs r patient_id q k =
     (if meta r = [] then Inr []
      else let cands = candidate_indices (meta r) patient_id
           in if cands = [] then Inr []
              else case index r of
                     Some knn_query \<Rightarrow>
                       (case knn_query q (min (k * 3) (int (length (meta r)))) of
                          Inl e \<Rightarrow> Inl e
                        | Inr nbrs \<Rightarrow> Inr (collect (meta r) cands k nbrs []))
                   | None \<Rightarrow>
                       (case stored_embeddings fs of
                          None \<Rightarrow> Inr []
                        | Some rows \<Rightarrow>
                            if \<exists>i \<in> set cands. rows \<le> i
                            then Inl (IndexError ''index out of bounds'')
                            else Inr (py_upto
                                       (sorted_desc (map (\<lambda>i. (similarity fs q i, meta r ! i)) cands))
                                       k)))"

definition query :: "rag_files \<Rightarrow> rag_index \<Rightarrow> int option \<Rightarrow> string \<Rightarrow> int \<Rightarrow> py_exn + hit list" where
  "query fs r patient_id q k = search fs (ensure_loaded fs r) patient_id q k"

text \<open>Two patients share one index: three chunks of patient 1, then one of patient 2.\<close>

definition shared_meta :: "chunk_meta list" where
  "shared_meta =
     [\<lparr>m_note_id = 10, m_patient_id = Some 1, m_text_snippet = ''cough'', m_note_date = ''2024-01-01''\<rparr>,
      \<lparr>m_note_id = 11, m_patient_id = Some 1, m_text_snippet = ''fever'', m_note_date = ''2024-01-02''\<rparr>,
      \<lparr>m_note_id = 12, m_patient_id = Some 1, m_text_snippet = ''rash'', m_note_date = ''2024-01-03''\<rparr>,
      \<lparr>m_note_id = 20, m_patient_id = Some 2, m_text_snippet = ''asthma'', m_note_date = ''2024-01-04''\<rparr>]"

definition nearest3 :: knn where
  \<comment> \<open>an index whose three nearest neighbours of the query are the chunks 0, 1 and 2\<close>
  "nearest3 q k = Inr (take (nat k) [(0, 1/10), (1, 2/10), (2, 3/10), (3, 9/10)])"

definition hnsw_index :: rag_index where
  "hnsw_index = \<lparr>meta = shared_meta, index = Some nearest3\<rparr>"

definition brute_index :: rag_index where
  "brute_index = \<lparr>meta = shared_meta, index = None\<rparr>"

definition files0 :: rag_files where
  "files0 = \<lparr>stored_meta = shared_meta, stored_index = None, stored_embeddings = Some 4,
             similarity = (\<lambda>q i. if i = 3 then 1/10 else 9/10)\<rparr>"

section \<open>Python values\<close>

text \<open>
  The values that travel as JSON: what a provider returns, what an endpoint answers and
  what the cache stores. A dictionary keeps its keys in insertion order.
\<close>

datatype pyval =
    PNone
  | PBool bool
  | PInt int
  | PFloat real
  | PStr string
  | PList "pyval list"
  | PDict "(string \<times> pyval) list"

fun truthy :: "pyval \<Rightarrow> bool" where
  "truthy PNone = False"
| "truthy (PBool b) = b"
| "truthy (PInt i) = (i \<noteq> 0)"
| "truthy (PFloat x) = (x \<noteq> 0)"
| "truthy (PStr s) = (s \<noteq> [])"
| "truthy (PList xs) = (xs \<noteq> [])"
| "truthy (PDict kvs) = (kvs \<noteq> [])"

fun dict_set :: "(string \<times> pyval) list \<Rightarrow> string \<Rightarrow> pyval \<Rightarrow> (string \<times> pyval) list" where
  \<comment> \<open>\<open>d[k] = v\<close>\<close>
  "dict_set [] k v = [(k, v)]"
| "dict_set ((k', v') # kvs) k v = (if k' = k then (k, v) # kvs else (k', v') # dict_set kvs k v)"

definition dict_get :: "(string \<times> pyval) list \<Rightarrow> string \<Rightarrow> pyval \<Rightarrow> pyval" where
  \<comment> \<open>\<open>d.get(k, default)\<close>\<close>
  "dict_get kvs k dflt = (case map_of kvs k of Some v \<Rightarrow> v | None \<Rightarrow> dflt)"

definition setdefault :: "(string \<times> pyval) list \<Rightarrow> string \<Rightarrow> pyval \<Rightarrow> (string \<times> pyval) list" where
  "setdefault kvs k v = (case map_of kvs k of Some _ \<Rightarrow> kvs | None \<Rightarrow> kvs @ [(k, v)])"

definition strip :: "string \<Rightarrow> string" where
  \<comment> \<open>\<open>s.strip()\<close>\<close>
  "strip s = rev (dropWhile isspace (rev (dropWhile isspace s)))"

fun str_nat :: "nat \<Rightarrow> string" where
  "str_nat n = (if n < 10 then [char_of (48 + n)] else str_nat (n div 10) @ [char_of (48 + n mod 10)])"

definition str_int :: "int \<Rightarrow> string" where
  "str_int i = (if i < 0 then CHR ''-'' # str_nat (nat (- i)) else str_nat (nat i))"

fun str_exn :: "py_exn \<Rightarrow> string" where
  \<comment> \<open>\<open>str(e)\<close>\<close>
  "str_exn (ValueError m) = m"
| "str_exn (TypeError m) = m"
| "str_exn (AttributeError m) = m"
| "str_exn (IndexError m) = m"
| "str_exn (ImportError m) = m"
| "str_exn (RuntimeError m) = m"
| "str_exn (HTTPException c m) = m"

section \<open>The database (app/models.py)\<close>

text \<open>
  Times are seconds; \<open>utcnow\<close> is an argument of every operation that reads the clock.
  The \<open>summary_json\<close> column holds text: either what \<open>json.dumps\<close> wrote for a value, which
  \<open>json.loads\<close> reads back, or text that \<open>json.loads\<close> rejects.
\<close>

datatype json_text = Json pyval | NotJson string

fun json_loads :: "json_text \<Rightarrow> pyval option" where
  "json_loads (Json v) = Some v"
| "json_loads (NotJson s) = None"

record patient =
  p_id :: int
  p_name :: string
  p_age :: int

record note_row =
  n_id :: int
  n_patient_id :: int
  n_note_date :: int
  n_text :: "string option"

record summary_cache =
  sc_id :: int
  sc_patient_id :: int
  sc_source :: "string option"
  sc_summary_json :: json_text
  sc_updated_at :: int

record db =
  patients :: "patient list"
  note_rows :: "note_row list"
  cache :: "summary_cache list"

definition find_patient :: "db \<Rightarrow> int \<Rightarrow> patient option" where
  \<comment> \<open>\<open>db.query(Patient).filter(Patient.id == pid).first()\<close>\<close>
  "find_patient d pid = List.find (\<lambda>p. p_id p = pid) (patients d)"

definition find_note :: "db \<Rightarrow> int \<Rightarrow> note_row option" where
  "find_note d nid = List.find (\<lambda>n. n_id n = nid) (note_rows d)"

definition notes_of :: "db \<Rightarrow> int \<Rightarrow> note_row list" where
  "notes_of d pid = filter (\<lambda>n. n_patient_id n = pid) (note_rows d)"

definition next_id :: "int list \<Rightarrow> int" where
  \<comment> \<open>the key the database gives a new row\<close>
  "next_id ids = (if ids = [] then 1 else Max (set ids) + 1)"

definition cache_of :: "db \<Rightarrow> int \<Rightarrow> summary_cache list" where
  \<comment> \<open>\<open>db.query(SummaryCache).filter(SummaryCache.patient_id == pid)\<close>\<close>
  "cache_of d pid = filter (\<lambda>c. sc_patient_id c = pid) (cache d)"

definition newest_first :: "summary_cache list \<Rightarrow> summary_cache list" where
  \<comment> \<open>\<open>.order_by(SummaryCache.updated_at.desc())\<close>\<close>
  "newest_first rows = rev (sort_key sc_updated_at (rev rows))"

definition first_row :: "'a list \<Rightarrow> 'a option" where
  \<comment> \<open>\<open>.first()\<close>\<close>
  "first_row rows = (case rows of [] \<Rightarrow> None | x # _ \<Rightarrow> Some x)"

definition cache_delete :: "db \<Rightarrow> int \<Rightarrow> db" where
  \<comment> \<open>\<open>db.query(SummaryCache).filter(SummaryCache.patient_id == pid).delete()\<close>, committed\<close>
  "cache_delete d pid = d\<lparr>cache := filter (\<lambda>c. sc_patient_id c \<noteq> pid) (cache d)\<rparr>"

definition cache_add :: "db \<Rightarrow> int \<Rightarrow> string \<Rightarrow> pyval \<Rightarrow> int \<Rightarrow> db" where
  \<comment> \<open>\<open>db.add(SummaryCache(patient_id, source, summary_json=json.dumps(v), updated_at)); db.commit()\<close>\<close>
  "cache_add d pid src v now =
     d\<lparr>cache := cache d @
        [\<lparr>sc_id = next_id (map sc_id (cache d)), sc_patient_id = pid, sc_source = Some src,
          sc_summary_json = Json v, sc_updated_at = now\<rparr>]\<rparr>"

section \<open>Generation providers\<close>

text \<open>
  A provider module exports \<open>generate_json_summary(retrieved, question=None)\<close>, which
  returns a value or raises. The table of providers gives \<open>None\<close> for a module whose import
  raises.
\<close>

type_synonym 'r provider = "'r list \<Rightarrow> string option \<Rightarrow> py_exn + pyval"

type_synonym 'r providers = "string \<Rightarrow> 'r provider option"

fun first_success ::
  "(string \<times> 'r provider option) list \<Rightarrow> 'r list \<Rightarrow> string option \<Rightarrow> (pyval \<times> string) option" where
  \<comment> \<open>a run of \<open>try: import, generate, return \<dots> except Exception: pass\<close> blocks, in order\<close>
  "first_success [] rs q = None"
| "first_success ((name, p) # ps) rs q =
     (case p of
        None \<Rightarrow> first_success ps rs q
      | Some generate \<Rightarrow>
          (case generate rs q of
             Inr out \<Rightarrow> Some (out, name)
           | Inl e \<Rightarrow> first_success ps rs q))"

section \<open>The note endpoints\<close>

subsection \<open>app.py: \<open>add_note\<close>, \<open>delete_note\<close>\<close>

definition app_add_note :: "int \<Rightarrow> db \<Rightarrow> int \<Rightarrow> string option \<Rightarrow> (py_exn + note_row) \<times> db" where
  \<comment> \<open>the text is \<open>note.get('text', '')\<close>; the cache rows of the patient are deleted after the commit\<close>
  "app_add_note now d pid txt =
     (case find_patient d pid of
        None \<Rightarrow> (Inl (HTTPException 404 ''Patient not found''), d)
      | Some p \<Rightarrow>
          (let n = \<lparr>n_id = next_id (map n_id (note_rows d)), n_patient_id = pid, n_note_date = now,
                    n_text = Some (case txt of None \<Rightarrow> [] | Some t \<Rightarrow> t)\<rparr>;
               d1 = d\<lparr>note_rows := note_rows d @ [n]\<rparr>
           in (Inr n, cache_delete d1 pid)))"

definition app_delete_note :: "db \<Rightarrow> int \<Rightarrow> (py_exn + string) \<times> db" where
  "app_delete_note d note_id =
     (case find_note d note_id of
        None \<Rightarrow> (Inl (HTTPException 404 ''Note not found''), d)
      | Some n \<Rightarrow>
          (let patient_id = n_patient_id n;
               d1 = d\<lparr>note_rows := filter (\<lambda>m. n_id m \<noteq> n_id n) (note_rows d)\<rparr>
           in (Inr ''ok'', cache_delete d1 patient_id)))"

subsection \<open>app/api/notes.py: \<open>create_note\<close>, \<open>update_note\<close>, \<open>delete_note\<close>\<close>

definition create_note :: "int \<Rightarrow> db \<Rightarrow> int \<Rightarrow> string \<Rightarrow> int option \<Rightarrow> (py_exn + note_row) \<times> db" where
  "create_note now d patient_id text note_date =
     (case find_patient d patient_id of
        None \<Rightarrow> (Inl (HTTPException 404 ''Patient not found''), d)
      | Some p \<Rightarrow>
          (let n = \<lparr>n_id = next_id (map n_id (note_rows d)), n_patient_id = patient_id,
                    n_note_date = (case note_date of None \<Rightarrow> now | Some t \<Rightarrow> t),
                    n_text = Some text\<rparr>
           in (Inr n, d\<lparr>note_rows := note_rows d @ [n]\<rparr>)))"

definition update_note :: "db \<Rightarrow> int \<Rightarrow> string \<Rightarrow> (py_exn + note_row) \<times> db" where
  "update_note d note_id text =
     (case find_note d note_id of
        None \<Rightarrow> (Inl (HTTPException 404 ''Note not found''), d)
      | Some n \<Rightarrow>
          (Inr (n\<lparr>n_text := Some text\<rparr>),
           d\<lparr>note_rows := map (\<lambda>m. if n_id m = n_id n then m\<lparr>n_text := Some text\<rparr> else m) (note_rows d)\<rparr>))"

definition delete_note :: "db \<Rightarrow> int \<Rightarrow> (py_exn + string) \<times> db" where
  "delete_note d note_id =
     (case find_note d note_id of
        None \<Rightarrow> (Inl (HTTPException 404 ''Note not found''), d)
      | Some n \<Rightarrow>
          (Inr ''Note deleted successfully'',
           d\<lparr>note_rows := filter (\<lambda>m. n_id m \<noteq> n_id n) (note_rows d)\<rparr>))"

section \<open>Summarize in app.py\<close>

record rag_retrieved =
  rr_note_id :: int
  rr_patient_id :: "int option"
  rr_note_date :: string
  rr_snippet :: string
  rr_score :: real

text \<open>
  What the endpoint reads besides the database: whether \<open>rag_prototype\<close> imports, what
  \<open>RAGIndex().load()\<close> followed by \<open>query(pid, q, k)\<close> gives, the provider modules and the
  clock.
\<close>

record app_env =
  rag_available :: bool
  rag_query :: "int \<Rightarrow> string \<Rightarrow> int \<Rightarrow> py_exn + hit list"
  app_providers :: "rag_retrieved providers"
  app_utcnow :: int

definition app_cached_payload :: "db \<Rightarrow> int \<Rightarrow> pyval option" where
  \<comment> \<open>the newest row of the patient, whatever its age; a row that does not parse is passed over\<close>
  "app_cached_payload d pid =
     (case first_row (newest_first (cache_of d pid)) of
        None \<Rightarrow> None
      | Some cached \<Rightarrow>
          (case json_loads (sc_summary_json cached) of
             None \<Rightarrow> None
           | Some (PDict kvs) \<Rightarrow>
               Some (PDict (setdefault kvs ''source''
                      (PStr (case sc_source cached of
                               None \<Rightarrow> ''cache''
                             | Some s \<Rightarrow> if s = [] then ''cache'' else s))))
           | Some payload \<Rightarrow> Some payload))"

definition to_retrieved :: "hit \<Rightarrow> rag_retrieved" where
  "to_retrieved h =
     \<lparr>rr_note_id = m_note_id (snd h), rr_patient_id = m_patient_id (snd h),
      rr_note_date = m_note_date (snd h), rr_snippet = m_text_snippet (snd h), rr_score = fst h\<rparr>"

definition mark_source :: "pyval \<Rightarrow> string \<Rightarrow> pyval" where
  \<comment> \<open>\<open>if isinstance(summary, dict): summary["source"] = src\<close>\<close>
  "mark_source summary src =
     (case summary of PDict kvs \<Rightarrow> PDict (dict_set kvs ''source'' (PStr src)) | _ \<Rightarrow> summary)"

definition attempt ::
  "app_env \<Rightarrow> db \<Rightarrow> int \<Rightarrow> rag_retrieved list \<Rightarrow> rag_retrieved provider \<Rightarrow> string \<Rightarrow> (pyval \<times> db) option" where
  \<comment> \<open>generate, mark the source, add a cache row (no row is deleted), return; \<open>None\<close> when
      the provider raises\<close>
  "attempt env d pid retrieved generate src =
     (case generate retrieved None of
        Inl e \<Rightarrow> None
      | Inr summary \<Rightarrow>
          Some (mark_source summary src,
                cache_add d pid src (mark_source summary src) (app_utcnow env)))"

definition app_generate ::
  "app_env \<Rightarrow> db \<Rightarrow> int \<Rightarrow> rag_retrieved list \<Rightarrow> (pyval \<times> db) option" where
  \<comment> \<open>OpenRouter, then Gemini, then Cohere; when the OpenRouter module does not import,
      the other two are not tried\<close>
  "app_generate env d pid retrieved =
     (case app_providers env ''openrouter_wrapper'' of
        None \<Rightarrow> None
      | Some openrouter \<Rightarrow>
          (case attempt env d pid retrieved openrouter ''openrouter'' of
             Some r \<Rightarrow> Some r
           | None \<Rightarrow>
               (case (case app_providers env ''gemini_wrapper'' of
                        None \<Rightarrow> None
                      | Some gemini \<Rightarrow> attempt env d pid retrieved gemini ''gemini'') of
                  Some r \<Rightarrow> Some r
                | None \<Rightarrow>
                    (case app_providers env ''cohere_wrapper'' of
                       None \<Rightarrow> None
                     | Some cohere \<Rightarrow> attempt env d pid retrieved cohere ''cohere''))))"

definition fallback_summary :: "hit list \<Rightarrow> pyval" where
  \<comment> \<open>the "fallback mock summary" at the end of \<open>summarize\<close>\<close>
  "fallback_summary hits =
     (let bullets = map (\<lambda>h. take 200 (m_text_snippet (snd h))) hits;
          sources = map (\<lambda>h. PDict [(''note_id'', PInt (m_note_id (snd h))),
                                     (''patient_id'', case m_patient_id (snd h) of
                                                         None \<Rightarrow> PNone | Some p \<Rightarrow> PInt p),
                                     (''score'', PFloat (fst h))]) hits;
          one_line = (case bullets of [] \<Rightarrow> ''No notes available'' | b # _ \<Rightarrow> take 140 b @ ''...'')
      in PDict [(''one_line'', PStr one_line), (''bullets'', PList (map PStr bullets)),
                (''sources'', PList sources)])"

definition app_summarize :: "app_env \<Rightarrow> db \<Rightarrow> int \<Rightarrow> int \<Rightarrow> (py_exn + pyval) \<times> db" where
  "app_summarize env d pid k =
     (if \<not> rag_available env
      then (Inr (PDict [(''one_line'', PStr ''(summarization unavailable) please install dependencies''),
                        (''bullets'', PList []), (''sources'', PList [])]), d)
      else case app_cached_payload d pid of
             Some payload \<Rightarrow> (Inr payload, d)
           | None \<Rightarrow>
               (case rag_query env pid (''summarize patient '' @ str_int pid) k of
                  Inl e \<Rightarrow> (Inl e, d)
                | Inr hits \<Rightarrow>
                    (case app_generate env d pid (map to_retrieved hits) of
                       Some (summary, d') \<Rightarrow> (Inr summary, d')
                     | None \<Rightarrow> (Inr (fallback_summary hits), d))))"

section \<open>Parsing and checking a provider's output\<close>

text \<open>
  \<open>json.loads\<close>, \<open>json.dumps\<close>, \<open>repr\<close>, \<open>int\<close> and \<open>float\<close> are Python's own; the wrappers
  are modelled over whatever these functions compute. \<open>loads\<close> gives \<open>None\<close> where
  \<open>json.loads\<close> raises.
\<close>

record json_lib =
  loads :: "string \<Rightarrow> pyval option"
  dumps :: "pyval \<Rightarrow> string"
  repr :: "pyval \<Rightarrow> string"
  py_int :: "pyval \<Rightarrow> int option"
  py_float :: "pyval \<Rightarrow> real option"

definition py_find :: "string \<Rightarrow> char \<Rightarrow> int" where
  \<comment> \<open>\<open>text.find(c)\<close>: the first position of \<open>c\<close>, or \<open>-1\<close>\<close>
  "py_find s c = (if c \<in> set s then int (length (takeWhile (\<lambda>x. x \<noteq> c) s)) else - 1)"

definition py_rfind :: "string \<Rightarrow> char \<Rightarrow> int" where
  \<comment> \<open>\<open>text.rfind(c)\<close>: the last position of \<open>c\<close>, or \<open>-1\<close>\<close>
  "py_rfind s c =
     (if c \<in> set s then int (length s) - 1 - int (length (takeWhile (\<lambda>x. x \<noteq> c) (rev s))) else - 1)"

definition py_str :: "json_lib \<Rightarrow> pyval \<Rightarrow> string" where
  \<comment> \<open>\<open>str(v)\<close>\<close>
  "py_str lib v = (case v of PStr s \<Rightarrow> s | _ \<Rightarrow> repr lib v)"

definition has_required_keys :: "pyval \<Rightarrow> bool" where
  \<comment> \<open>\<open>isinstance(parsed, dict) and "one_line" in parsed and "bullets" in parsed\<close>\<close>
  "has_required_keys parsed =
     (case parsed of
        PDict kvs \<Rightarrow> map_of kvs ''one_line'' \<noteq> None \<and> map_of kvs ''bullets'' \<noteq> None
      | _ \<Rightarrow> False)"

subsection \<open>openrouter\_wrapper.py\<close>

definition openrouter_parse :: "json_lib \<Rightarrow> string \<Rightarrow> py_exn + pyval" where
  \<comment> \<open>"Try parse JSON directly", otherwise the text from the first opening brace to the
      last closing brace; a decode error of the second attempt is not caught\<close>
  "openrouter_parse lib text =
     (case loads lib text of
        Some parsed \<Rightarrow> Inr parsed
      | None \<Rightarrow>
          (let start = py_find text CHR ''{''; stop = py_rfind text CHR ''}''
           in if start \<noteq> - 1 \<and> stop \<noteq> - 1 \<and> start < stop
              then (case loads lib (py_slice text start (stop + 1)) of
                      Some parsed \<Rightarrow> Inr parsed
                    | None \<Rightarrow> Inl (ValueError ''JSONDecodeError''))
              else Inl (ValueError (''OpenRouter: failed to parse JSON. Output (trunc): ''
                                     @ take 1000 text))))"

definition openrouter_validate :: "json_lib \<Rightarrow> string \<Rightarrow> py_exn + pyval" where
  \<comment> \<open>\<open>generate_json_summary\<close> from the answer of \<open>_chat\<close> on; the message of the last
      error is modelled without the printed value\<close>
  "openrouter_validate lib text =
     (case openrouter_parse lib text of
        Inl e \<Rightarrow> Inl e
      | Inr parsed \<Rightarrow>
          if \<not> has_required_keys parsed
          then Inl (ValueError ''OpenRouter: Summary JSON missing required keys'')
          else Inr parsed)"

subsection \<open>cohere\_wrapper.py\<close>

definition cohere_parse :: "json_lib \<Rightarrow> string \<Rightarrow> py_exn + pyval" where
  "cohere_parse lib text =
     (case loads lib text of
        Some parsed \<Rightarrow> Inr parsed
      | None \<Rightarrow>
          (let start = py_find text CHR ''{''; stop = py_rfind text CHR ''}''
           in if start \<noteq> - 1 \<and> stop \<noteq> - 1 \<and> start < stop
              then (case loads lib (py_slice text start (stop + 1)) of
                      Some parsed \<Rightarrow> Inr parsed
                    | None \<Rightarrow> Inl (ValueError ''Failed to parse JSON summary''))
              else Inl (ValueError (''Failed to parse JSON summary. Model output: ''
                                     @ take 1000 text))))"

definition normalize_source :: "json_lib \<Rightarrow> pyval \<Rightarrow> pyval list" where
  \<comment> \<open>one turn of the "Normalize sources" loop: the entry converted, or nothing when
      \<open>.get\<close>, \<open>int\<close> or \<open>float\<close> raises\<close>
  "normalize_source lib s =
     (case s of
        PDict kvs \<Rightarrow>
          (case py_int lib (dict_get kvs ''note_id'' PNone) of
             None \<Rightarrow> []
           | Some i \<Rightarrow>
               (case py_float lib (dict_get kvs ''score'' (PInt 0)) of
                  None \<Rightarrow> []
                | Some x \<Rightarrow> [PDict [(''note_id'', PInt i), (''score'', PFloat x)]]))
      | _ \<Rightarrow> [])"

definition normalize_sources :: "json_lib \<Rightarrow> (string \<times> pyval) list \<Rightarrow> py_exn + pyval" where
  \<comment> \<open>a string or a dictionary is iterated and yields entries without \<open>.get\<close>; any other
      value that is no list cannot be iterated\<close>
  "normalize_sources lib kvs =
     (case map_of kvs ''sources'' of
        None \<Rightarrow> Inr (PDict kvs)
      | Some (PList ss) \<Rightarrow> Inr (PDict (dict_set kvs ''sources'' (PList (concat (map (normalize_source lib) ss)))))
      | Some (PStr s) \<Rightarrow> Inr (PDict (dict_set kvs ''sources'' (PList [])))
      | Some (PDict d) \<Rightarrow> Inr (PDict (dict_set kvs ''sources'' (PList [])))
      | Some _ \<Rightarrow> Inl (TypeError ''object is not iterable''))"

definition cohere_validate :: "json_lib \<Rightarrow> string \<Rightarrow> py_exn + pyval" where
  \<comment> \<open>\<open>generate_json_summary\<close> from the answer \<open>out\<close> of \<open>_call_generate\<close> on\<close>
  "cohere_validate lib out =
     (case cohere_parse lib (strip out) of
        Inl e \<Rightarrow> Inl e
      | Inr parsed \<Rightarrow>
          (case parsed of
             PDict kvs \<Rightarrow>
               if has_required_keys parsed then normalize_sources lib kvs
               else Inl (ValueError ''Summary JSON missing required keys'')
           | _ \<Rightarrow> Inl (ValueError ''Summary JSON missing required keys'')))"

subsection \<open>hf\_wrapper.py\<close>

definition shorten_sentence :: "string \<Rightarrow> int \<Rightarrow> string" where
  "shorten_sentence s max_words =
     (let words = split_ws (strip s)
      in if int (length words) \<le> max_words then join_sp words
         else join_sp (py_upto words max_words) @ ''...'')"

definition hf_enforce_brevity :: "json_lib \<Rightarrow> int \<Rightarrow> (string \<times> pyval) list \<Rightarrow> pyval" where
  \<comment> \<open>"enforce one\_line brevity", "enforce bullets array length and word limits";
      \<open>limit\<close> is \<open>HF_BULLET_WORD_LIMIT\<close>\<close>
  "hf_enforce_brevity lib limit kvs =
     (let kvs1 = dict_set kvs ''one_line''
                   (PStr (shorten_sentence (py_str lib (dict_get kvs ''one_line'' (PStr []))) 12));
          bullets = (case dict_get kvs1 ''bullets'' (PList []) of
                       PList bs \<Rightarrow> bs
                     | b \<Rightarrow> [PStr (py_str lib b)]);
          bullets4 = take 4 bullets
      in PDict (dict_set kvs1 ''bullets''
                  (PList (map (\<lambda>b. PStr (shorten_sentence (py_str lib b) limit)) bullets4))))"

definition hf_generated_text :: "json_lib \<Rightarrow> string \<Rightarrow> pyval + pyval" where
  \<comment> \<open>the first \<open>try\<close> of \<open>generate_json_summary\<close>: \<open>Inl\<close> is the early \<open>return parsed\<close>,
      \<open>Inr\<close> the value of \<open>text\<close>; \<open>parsed[0]\<close> on an empty list raises and is caught\<close>
  "hf_generated_text lib full_text =
     (case loads lib full_text of
        None \<Rightarrow> Inr (PStr full_text)
      | Some parsed \<Rightarrow>
          (case parsed of
             PList [] \<Rightarrow> Inr (PStr full_text)
           | PList (PDict kvs # rest) \<Rightarrow>
               (case map_of kvs ''generated_text'' of
                  Some t \<Rightarrow> Inr t
                | None \<Rightarrow> Inr (PStr (dumps lib parsed)))
           | PDict kvs \<Rightarrow>
               (case map_of kvs ''generated_text'' of
                  Some t \<Rightarrow> Inr t
                | None \<Rightarrow>
                    if map_of kvs ''one_line'' \<noteq> None then Inl parsed
                    else Inr (PStr (dumps lib parsed)))
           | _ \<Rightarrow> Inr (PStr (dumps lib parsed))))"

definition hf_validate :: "json_lib \<Rightarrow> int \<Rightarrow> string \<Rightarrow> py_exn + pyval" where
  \<comment> \<open>\<open>generate_json_summary\<close> from the answer \<open>full_text\<close> of \<open>_call_hf_inference\<close> on\<close>
  "hf_validate lib limit full_text =
     (case hf_generated_text lib full_text of
        Inl parsed \<Rightarrow> Inr parsed
      | Inr (PStr text) \<Rightarrow>
          (let start = py_find text CHR ''{''; stop = py_rfind text CHR ''}''
           in if start \<noteq> - 1 \<and> stop \<noteq> - 1 \<and> start < stop
              then (case loads lib (py_slice text start (stop + 1)) of
                      None \<Rightarrow> Inl (ValueError ''HF: failed to parse JSON summary'')
                    | Some parsed \<Rightarrow>
                        (case parsed of
                           PDict kvs \<Rightarrow>
                             if has_required_keys parsed then Inr (hf_enforce_brevity lib limit kvs)
                             else Inl (ValueError ''HF: Summary JSON missing required keys'')
                         | _ \<Rightarrow> Inl (ValueError ''HF: Summary JSON missing required keys'')))
              else Inl (ValueError (''HF: failed to find JSON in model output. Output (truncated): ''
                                     @ take 1000 text)))
      | Inr _ \<Rightarrow> Inl (AttributeError ''object has no attribute find''))"

section \<open>Summarize in app/api/summarize.py\<close>

record retrieved =
  r_note_id :: int
  r_note_date :: int
  r_snippet :: string
  r_score :: real

definition retrieve_notes :: "note_row list \<Rightarrow> retrieved list" where
  \<comment> \<open>the retrieval items of summarize.py and qa.py: every note of the patient, score 1.0\<close>
  "retrieve_notes ns =
     map (\<lambda>n. \<lparr>r_note_id = n_id n, r_note_date = n_note_date n,
                 r_snippet = strip (case n_text n of None \<Rightarrow> [] | Some t \<Rightarrow> t), r_score = 1\<rparr>) ns"

definition try_generate_summary_with_providers ::
  "retrieved providers \<Rightarrow> retrieved list \<Rightarrow> py_exn + pyval \<times> string" where
  \<comment> \<open>\<open>_try_generate_summary_with_providers\<close>: the mock at the end is not guarded\<close>
  "try_generate_summary_with_providers ps rs =
     (case first_success [(''openrouter'', ps ''openrouter_wrapper''), (''cohere'', ps ''cohere_wrapper''),
                          (''huggingface'', ps ''hf_wrapper''), (''ollama'', ps ''ollama_wrapper''),
                          (''gpt4all'', ps ''gpt4all_wrapper'')] rs None of
        Some r \<Rightarrow> Inr r
      | None \<Rightarrow>
          (case ps ''mock_ai_wrapper'' of
             None \<Rightarrow> Inl (ImportError ''No module named mock_ai_wrapper'')
           | Some mock \<Rightarrow>
               (case mock rs None of Inl e \<Rightarrow> Inl e | Inr out \<Rightarrow> Inr (out, ''mock_ai''))))"

definition summarize_generate ::
  "retrieved providers \<Rightarrow> retrieved list \<Rightarrow> py_exn + pyval \<times> string" where
  \<comment> \<open>OpenRouter, then Gemini, then the chain above\<close>
  "summarize_generate ps rs =
     (case first_success [(''openrouter'', ps ''openrouter_wrapper''), (''gemini'', ps ''gemini_wrapper'')]
             rs None of
        Some r \<Rightarrow> Inr r
      | None \<Rightarrow> try_generate_summary_with_providers ps rs)"

definition final_result :: "pyval \<Rightarrow> string \<Rightarrow> retrieved list \<Rightarrow> py_exn + pyval" where
  \<comment> \<open>"Prepare final result"; \<open>.get\<close> on a value that is no dictionary raises\<close>
  "final_result ai_result provider rs =
     (case ai_result of
        PDict kvs \<Rightarrow>
          if map_of kvs ''one_line'' \<noteq> None \<and> map_of kvs ''bullets'' \<noteq> None
          then (let kvs1 = setdefault kvs ''sources''
                             (PList (map (\<lambda>r. PDict [(''note_id'', PInt (r_note_id r)),
                                                       (''score'', PFloat (r_score r))]) (take 5 rs)))
                in Inr (PDict (dict_set kvs1 ''ai_provider'' (dict_get kvs1 ''ai_provider'' (PStr provider)))))
          else Inr (PDict
                 [(''one_line'', dict_get kvs ''summary'' (PStr ''AI summary not available'')),
                  (''bullets'', dict_get kvs ''key_points'' (PList [PStr ''No key points available''])),
                  (''sources'', PList (map (\<lambda>r. PDict [(''note_id'', PInt (r_note_id r)),
                                                          (''snippet'', PStr (take 200 (r_snippet r)))]) rs)),
                  (''ai_provider'', dict_get kvs ''provider'' (PStr provider)),
                  (''confidence'', dict_get kvs ''confidence'' (PFloat 0))])
      | _ \<Rightarrow> Inl (AttributeError ''object has no attribute get''))"

definition cache_put :: "db \<Rightarrow> int \<Rightarrow> string \<Rightarrow> pyval \<Rightarrow> int \<Rightarrow> db" where
  \<comment> \<open>"Cache the successful result": delete the patient's rows, add one, commit\<close>
  "cache_put d patient_id provider v now = cache_add (cache_delete d patient_id) patient_id provider v now"

definition from_cache :: "pyval \<Rightarrow> bool \<Rightarrow> pyval" where
  \<comment> \<open>\<open>final_result["from_cache"] = b\<close>\<close>
  "from_cache v b = (case v of PDict kvs \<Rightarrow> PDict (dict_set kvs ''from_cache'' (PBool b)) | _ \<Rightarrow> v)"

definition basic_summary :: "patient \<Rightarrow> note_row list \<Rightarrow> py_exn \<Rightarrow> py_exn + pyval" where
  \<comment> \<open>the \<open>except Exception as e\<close> branch; \<open>n.text[:50]\<close> raises on a note without text\<close>
  "basic_summary p ns e =
     (if \<exists>n \<in> set (take 3 ns). n_text n = None
      then Inl (TypeError ''NoneType object is not subscriptable'')
      else Inr (PDict
        [(''one_line'', PStr (''Summary for '' @ p_name p @ '' - '' @ str_nat (length ns)
                               @ '' clinical notes available'')),
         (''bullets'', PList (map (\<lambda>(i, n). PStr (''Note '' @ str_nat (i + 1) @ '': ''
                                                     @ take 50 (the (n_text n)) @ ''...''))
                                  (enumerate 0 (take 3 ns)))),
         (''sources'', PList (map (\<lambda>n. PDict [(''note_id'', PInt (n_id n)),
                                                 (''snippet'', PStr (take 200 (case n_text n of
                                                                                 None \<Rightarrow> [] | Some t \<Rightarrow> t)))])
                                  ns)),
         (''error'', PStr (''AI processing failed: '' @ str_exn e)),
         (''from_cache'', PBool False)]))"

definition api_cached_payload :: "db \<Rightarrow> int \<Rightarrow> int \<Rightarrow> pyval option" where
  \<comment> \<open>the newest row of the patient not older than one hour; only a dictionary is served\<close>
  "api_cached_payload d patient_id now =
     (case first_row (newest_first (filter (\<lambda>c. now - 3600 \<le> sc_updated_at c) (cache_of d patient_id))) of
        None \<Rightarrow> None
      | Some cached \<Rightarrow>
          (case json_loads (sc_summary_json cached) of
             Some (PDict kvs) \<Rightarrow>
               Some (PDict (dict_set (dict_set kvs ''from_cache'' (PBool True)) ''cache_source''
                              (case sc_source cached of None \<Rightarrow> PNone | Some s \<Rightarrow> PStr s)))
           | _ \<Rightarrow> None))"

definition summarize :: "retrieved providers \<Rightarrow> int \<Rightarrow> db \<Rightarrow> int \<Rightarrow> (py_exn + pyval) \<times> db" where
  "summarize ps now d patient_id =
     (case find_patient d patient_id of
        None \<Rightarrow> (Inl (HTTPException 404 ''Patient not found''), d)
      | Some p \<Rightarrow>
          (case api_cached_payload d patient_id now of
             Some cached_data \<Rightarrow> (Inr cached_data, d)
           | None \<Rightarrow>
               (let ns = notes_of d patient_id
                in if ns = []
                   then (Inr (PDict [(''one_line'', PStr (''No notes available for '' @ p_name p)),
                                     (''bullets'', PList [PStr ''No clinical data to analyze'']),
                                     (''sources'', PList [])]), d)
                   else (case summarize_generate ps (retrieve_notes ns) of
                           Inl e \<Rightarrow> (basic_summary p ns e, d)
                         | Inr (ai_result, provider) \<Rightarrow>
                             (case final_result ai_result provider (retrieve_notes ns) of
                                Inl e \<Rightarrow> (basic_summary p ns e, d)
                              | Inr res \<Rightarrow>
                                  (Inr (from_cache res False),
                                   cache_put d patient_id provider res now))))))"

section \<open>Question answering in app/api/qa.py\<close>

definition try_answer_with_providers ::
  "retrieved providers \<Rightarrow> retrieved list \<Rightarrow> string \<Rightarrow> py_exn + pyval \<times> string" where
  "try_answer_with_providers ps rs question =
     (case first_success [(''openrouter'', ps ''openrouter_wrapper''), (''gemini'', ps ''gemini_wrapper''),
                          (''cohere'', ps ''cohere_wrapper''), (''huggingface'', ps ''hf_wrapper''),
                          (''ollama'', ps ''ollama_wrapper''), (''gpt4all'', ps ''gpt4all_wrapper'')]
             rs (Some question) of
        Some r \<Rightarrow> Inr r
      | None \<Rightarrow>
          (case ps ''mock_ai_wrapper'' of
             None \<Rightarrow> Inl (ImportError ''No module named mock_ai_wrapper'')
           | Some mock \<Rightarrow>
               (case mock rs (Some question) of Inl e \<Rightarrow> Inl e | Inr out \<Rightarrow> Inr (out, ''mock_ai''))))"

record qa_source =
  qs_note_id :: int
  qs_snippet :: string
  qs_relevance :: real

text \<open>The answer of the endpoint; a key the dictionary does not have is \<open>None\<close>.\<close>

record qa_response =
  qa_answer :: pyval
  qa_sources :: "qa_source list"
  qa_confidence :: "pyval option"
  qa_ai_provider :: "string option"
  qa_error :: "bool option"

definition py_or :: "pyval \<Rightarrow> pyval \<Rightarrow> pyval" where
  \<comment> \<open>\<open>a or b\<close>\<close>
  "py_or a b = (if truthy a then a else b)"

definition qa_normalize :: "pyval \<Rightarrow> string \<Rightarrow> retrieved list \<Rightarrow> string \<Rightarrow> py_exn + qa_response" where
  \<comment> \<open>"Normalize outputs"\<close>
  "qa_normalize ai_result provider rs question =
     (case ai_result of
        PDict kvs \<Rightarrow>
          Inr \<lparr>qa_answer = py_or (dict_get kvs ''answer'' PNone)
                             (py_or (dict_get kvs ''one_line'' PNone) (PStr (''Answer to: '' @ question))),
               qa_sources = map (\<lambda>r. \<lparr>qs_note_id = r_note_id r, qs_snippet = take 200 (r_snippet r),
                                         qs_relevance = r_score r\<rparr>) (take 3 rs),
               qa_confidence = Some (dict_get kvs ''confidence'' (PFloat (7/10))),
               qa_ai_provider = Some provider,
               qa_error = None\<rparr>
      | _ \<Rightarrow> Inl (AttributeError ''object has no attribute get''))"

definition qa_error_response :: "string \<Rightarrow> py_exn \<Rightarrow> qa_response" where
  "qa_error_response question e =
     \<lparr>qa_answer = PStr (''I encountered an error while processing your question: '' @ question
                        @ ''. Error: '' @ str_exn e),
      qa_sources = [], qa_confidence = None, qa_ai_provider = None, qa_error = Some True\<rparr>"

definition qa_try_block :: "retrieved providers \<Rightarrow> retrieved list \<Rightarrow> string \<Rightarrow> py_exn + qa_response" where
  \<comment> \<open>the body of the \<open>try\<close> in \<open>qa\<close>: the provider chain, then the normalisation\<close>
  "qa_try_block ps rs question =
     (case try_answer_with_providers ps rs question of
        Inl e \<Rightarrow> Inl e
      | Inr (ai_result, provider) \<Rightarrow> qa_normalize ai_result provider rs question)"

definition qa :: "retrieved providers \<Rightarrow> db \<Rightarrow> int \<Rightarrow> string \<Rightarrow> py_exn + qa_response" where
  "qa ps d patient_id question =
     (case find_patient d patient_id of
        None \<Rightarrow> Inl (HTTPException 404 ''Patient not found'')
      | Some p \<Rightarrow>
          (case qa_try_block ps (retrieve_notes (notes_of d patient_id)) question of
             Inl e \<Rightarrow> Inr (qa_error_response question e)
           | Inr resp \<Rightarrow> Inr resp))"

section \<open>Scenarios\<close>


definition ann :: patient where
  "ann = \<lparr>p_id = 7, p_name = ''Ann'', p_age = 40\<rparr>"

definition note1 :: note_row where
  "note1 = \<lparr>n_id = 1, n_patient_id = 7, n_note_date = 50, n_text = Some ''persistent cough''\<rparr>"

definition summary1 :: pyval where
  "summary1 = PDict [(''one_line'', PStr ''Cough''), (''bullets'', PList [PStr ''persistent cough''])]"

definition cached_row :: summary_cache where
  "cached_row = \<lparr>sc_id = 1, sc_patient_id = 7, sc_source = Some ''openrouter'',
                  sc_summary_json = Json summary1, sc_updated_at = 100\<rparr>"

definition broken_row :: summary_cache where
  \<comment> \<open>a row whose text \<open>json.loads\<close> rejects\<close>
  "broken_row = \<lparr>sc_id = 1, sc_patient_id = 7, sc_source = Some ''openrouter'',
                  sc_summary_json = NotJson ''{one_line: '', sc_updated_at = 100\<rparr>"

definition db_fresh :: db where
  "db_fresh = \<lparr>patients = [ann], note_rows = [note1], cache = []\<rparr>"

definition db_cached :: db where
  "db_cached = \<lparr>patients = [ann], note_rows = [note1], cache = [cached_row]\<rparr>"

definition db_broken :: db where
  "db_broken = \<lparr>patients = [ann], note_rows = [note1], cache = [broken_row]\<rparr>"

definition hit1 :: hit where
  "hit1 = (9/10, \<lparr>m_note_id = 1, m_patient_id = Some 7, m_text_snippet = ''persistent cough'',
                  m_note_date = ''2024-01-01''\<rparr>)"

definition answers :: "'r provider" where
  "answers rs q = Inr summary1"


definition env_up :: app_env where
  \<comment> \<open>OpenRouter answers\<close>
  "env_up = \<lparr>rag_available = True, rag_query = (\<lambda>pid q k. Inr [hit1]),
             app_providers = (\<lambda>m. if m = ''openrouter_wrapper'' then Some answers else None),
             app_utcnow = 200\<rparr>"


definition providers_up :: "retrieved providers" where
  "providers_up = (\<lambda>m. if m = ''openrouter_wrapper'' then Some answers else None)"

definition providers_none :: "retrieved providers" where
  \<comment> \<open>no provider module imports\<close>
  "providers_none = (\<lambda>m. None)"

text \<open>
  Provider outputs: a summary whose \<open>bullets\<close> is one string, and a summary with a
  \<open>one_line\<close> of 20 words and 6 bullets; \<open>scn_loads\<close> is \<open>json.loads\<close> on these texts.
\<close>

definition scalar_text :: string where
  \<open>scalar_text = ''{"one_line": "Stable", "bullets": "no fever"}''\<close>

definition scalar_value :: pyval where
  "scalar_value = PDict [(''one_line'', PStr ''Stable''), (''bullets'', PStr ''no fever'')]"

definition long_text :: string where
  \<open>long_text = ''{"one_line": "w1 w2 w3 w4 w5 w6 w7 w8 w9 w10 w11 w12 w13 w14 w15 w16 w17 w18 w19 w20", "bullets": ["b1", "b2", "b3", "b4", "b5", "b6"]}''\<close>

definition long_value :: pyval where
  "long_value =
     PDict [(''one_line'', PStr ''w1 w2 w3 w4 w5 w6 w7 w8 w9 w10 w11 w12 w13 w14 w15 w16 w17 w18 w19 w20''),
            (''bullets'', PList [PStr ''b1'', PStr ''b2'', PStr ''b3'', PStr ''b4'', PStr ''b5'', PStr ''b6''])]"

definition scn_loads :: "string \<Rightarrow> pyval option" where
  "scn_loads s = (if s = scalar_text then Some scalar_value
                  else if s = long_text then Some long_value else None)"

definition prose_scalar_text :: string where
  \<comment> \<open>the same summary after a word of prose\<close>
  "prose_scalar_text = ''Summary: '' @ scalar_text"

definition prose_long_text :: string where
  "prose_long_text = ''Summary: '' @ long_text"
section \<open>Properties of the chunker\<close>

subsection \<open>The loop returns when the step is positive, and only then\<close>

lemma count_step:
  fixes n i s :: int
  assumes "0 < s" "i < n"
  shows "nat ((n - i + s - 1) div s) = Suc (nat ((n - (i + s) + s - 1) div s))"
proof -
  have "(n - i + s - 1) div s = (n - (i + s) + s - 1 + s) div s" by (simp add: algebra_simps)
  also have "\<dots> = (n - (i + s) + s - 1) div s + 1" using assms(1) by (subst div_add_self2) simp_all
  finally have e: "(n - i + s - 1) div s = (n - (i + s) + s - 1) div s + 1" .
  have "0 \<le> (n - (i + s) + s - 1) div s" using assms by (simp add: pos_imp_zdiv_nonneg_iff)
  with e show ?thesis by simp
qed

lemma count_done:
  fixes n i s :: int
  assumes "0 < s" "\<not> i < n"
  shows "nat ((n - i + s - 1) div s) = 0"
proof -
  have "n - i + s - 1 < s" using assms by simp
  then have "(n - i + s - 1) div s \<le> 0"
    using assms(1) by (metis div_pos_pos_trivial div_neg_pos_less0 less_le linorder_not_less)
  then show ?thesis by simp
qed

lemma chunk_loop_terminates:
  assumes "0 < max_tokens - overlap"
  shows "chunk_loop words max_tokens overlap i chunks =
     Some (chunks @ map (\<lambda>j. join_sp (py_slice words (i + int j * (max_tokens - overlap))
                                              (i + int j * (max_tokens - overlap) + max_tokens)))
                      [0 ..< nat ((int (length words) - i + (max_tokens - overlap) - 1) div (max_tokens - overlap))])"
proof (induction "nat (int (length words) - i)" arbitrary: i chunks rule: less_induct)
  case less
  let ?s = "max_tokens - overlap"
  show ?case
  proof (cases "i < int (length words)")
    case False
    then show ?thesis
      using count_done[OF assms False] by (subst chunk_loop.simps) simp
  next
    case True
    have m: "nat (int (length words) - (i + ?s)) < nat (int (length words) - i)"
      using True assms by simp
    note IH = less[OF m]
    have c: "nat ((int (length words) - i + ?s - 1) div ?s) = Suc (nat ((int (length words) - (i + ?s) + ?s - 1) div ?s))"
      using count_step[OF assms True] .
    show ?thesis
      apply (subst chunk_loop.simps)
      apply (simp only: True if_True IH c)
      apply (simp add: upt_conv_Cons map_Suc_upt[symmetric] del: upt_Suc)
      apply (simp add: algebra_simps)
      done
  qed
qed

lemma chunk_loop_diverges:
  assumes "chunk_loop words max_tokens overlap i chunks = Some r"
  shows "0 < max_tokens - overlap \<or> \<not> i < int (length words)"
proof (rule chunk_loop.raw_induct[where P = "\<lambda>ws m ov j cs y. 0 < m - ov \<or> \<not> j < int (length ws)", OF _ assms])
  fix f :: "string list \<Rightarrow> int \<Rightarrow> int \<Rightarrow> int \<Rightarrow> string list \<Rightarrow> string list option"
  fix ws m ov j cs y
  assume IH: "\<And>ws m ov j cs y. f ws m ov j cs = Some y \<Longrightarrow> 0 < m - ov \<or> \<not> j < int (length ws)"
  assume step: "(if j < int (length ws)
        then f ws m ov (j + (m - ov)) (cs @ [join_sp (py_slice ws j (j + m))])
        else Some cs) = Some y"
  show "0 < m - ov \<or> \<not> j < int (length ws)"
  proof (cases "j < int (length ws)")
    case False
    then show ?thesis by simp
  next
    case True
    with step have "f ws m ov (j + (m - ov)) (cs @ [join_sp (py_slice ws j (j + m))]) = Some y"
      by simp
    from IH[OF this] True show ?thesis by auto
  qed
qed


lemma chunk_loop_None:
  "max_tokens - overlap \<le> 0 \<Longrightarrow> i < int (length words) \<Longrightarrow>
   chunk_loop words max_tokens overlap i chunks = None"
  using chunk_loop_diverges[of words max_tokens overlap i chunks]
  by (cases "chunk_loop words max_tokens overlap i chunks") auto

lemma py_slice_window:
  assumes "0 \<le> i" "0 \<le> m"
  shows "py_slice ws i (i + m) = take (nat m) (drop (nat i) ws)"
proof (cases "nat i \<le> length ws")
  case True
  have "min (nat (i + m)) (length ws) - nat i = min (nat m) (length ws - nat i)"
    using assms True by (auto simp: nat_add_distrib min_def)
  then have "py_slice ws i (i + m) = take (min (nat m) (length ws - nat i)) (drop (nat i) ws)"
    using assms True by (simp add: py_slice_def py_index_def min_absorb1)
  also have "\<dots> = take (nat m) (drop (nat i) ws)"
    by (simp add: min_def)
  finally show ?thesis .
next
  case False
  then show ?thesis using assms by (simp add: py_slice_def py_index_def)
qed

lemma ceil_div_iff:
  fixes s n j :: int
  assumes "0 < s"
  shows "j < (n + s - 1) div s \<longleftrightarrow> j * s < n"
proof
  assume "j < (n + s - 1) div s"
  then have "j + 1 \<le> (n + s - 1) div s" by simp
  then have "(j + 1) * s \<le> ((n + s - 1) div s) * s"
    using assms by (simp add: mult_right_mono)
  also have "\<dots> \<le> n + s - 1"
    using assms by (metis div_mult_mod_eq Euclidean_Rings.pos_mod_sign le_add_same_cancel1)
  finally show "j * s < n" by (simp add: algebra_simps)
next
  assume a: "j * s < n"
  have "n + s - 1 < ((n + s - 1) div s) * s + s"
    using assms by (metis div_mult_mod_eq Euclidean_Rings.pos_mod_bound add_less_cancel_left)
  with a have "(j + 1) * s < ((n + s - 1) div s + 1) * s" by (simp add: algebra_simps)
  then have "j + 1 < (n + s - 1) div s + 1"
    using assms by (simp add: mult_less_cancel_right)
  then show "j < (n + s - 1) div s" by simp
qed

lemma spec_window_starts_nonneg:
  "0 < s \<Longrightarrow> i \<in> set (spec_window_starts n s) \<Longrightarrow> 0 \<le> i"
  by (auto simp: spec_window_starts_def)

lemma spec_window_starts_set:
  assumes "0 < s"
  shows "set (spec_window_starts n s) = {i. 0 \<le> i \<and> i < int n \<and> s dvd i}"
proof -
  have iff: "int j < (int n + s - 1) div s \<longleftrightarrow> int j * s < int n" for j
    using ceil_div_iff[OF assms] .
  show ?thesis
  proof (intro set_eqI iffI)
    fix i assume "i \<in> set (spec_window_starts n s)"
    then have "i \<in> (\<lambda>j. int j * s) ` {0 ..< nat ((int n + s - 1) div s)}"
      by (simp add: spec_window_starts_def)
    then obtain j where "i = int j * s" and "j \<in> {0 ..< nat ((int n + s - 1) div s)}"
      by blast
    then have j: "i = int j * s" "j < nat ((int n + s - 1) div s)"
      by simp_all
    then have "int j < (int n + s - 1) div s" by simp
    with iff have "int j * s < int n" by simp
    with j assms show "i \<in> {i. 0 \<le> i \<and> i < int n \<and> s dvd i}" by simp
  next
    fix i assume "i \<in> {i. 0 \<le> i \<and> i < int n \<and> s dvd i}"
    then have i: "0 \<le> i" "i < int n" "s dvd i" by auto
    then obtain q where q: "i = q * s" by (auto simp: dvd_def mult.commute)
    with i assms have "0 \<le> q" by (simp add: zero_le_mult_iff)
    then obtain j where jq: "q = int j" using nonneg_int_cases by blast
    with q i iff have "int j < (int n + s - 1) div s" by simp
    then have "j < nat ((int n + s - 1) div s)" by simp
    with q jq show "i \<in> set (spec_window_starts n s)"
      by (auto simp: spec_window_starts_def)
  qed
qed

lemma chunk_text_returns_iff:
  "(\<exists>r. chunk_text text max_tokens overlap = Some r) \<longleftrightarrow>
     int (length (split_ws text)) \<le> max_tokens \<or> overlap < max_tokens \<or> split_ws text = []"
proof (cases "int (length (split_ws text)) \<le> max_tokens")
  case True
  then show ?thesis by (simp add: chunk_text_def Let_def)
next
  case False
  show ?thesis
  proof (cases "overlap < max_tokens")
    case True
    then have "0 < max_tokens - overlap" by simp
    from chunk_loop_terminates[OF this] False True show ?thesis
      by (simp add: chunk_text_def Let_def)
  next
    case ov: False
    show ?thesis
    proof (cases "split_ws text = []")
      case True
      with False show ?thesis
        by (simp add: chunk_text_def Let_def chunk_loop.simps)
    next
      case ne: False
      then have "0 < int (length (split_ws text))" by simp
      moreover have "max_tokens - overlap \<le> 0" using ov by simp
      ultimately have "chunk_loop (split_ws text) max_tokens overlap 0 [] = None"
        by (rule chunk_loop_None[rotated])
      with False ov ne show ?thesis
        by (simp add: chunk_text_def Let_def)
    qed
  qed
qed

lemma split_ws_replicate:
  "split_ws (concat (replicate n ''w '')) = replicate n ''w''"
  by (induction n) (simp_all add: isspace_def Let_def)

lemma split_ws_text600: "split_ws text600 = replicate 600 ''w''"
  by (simp add: text600_def split_ws_replicate)

subsection \<open>The words of a chunk\<close>

lemma split_ws_words:
  "w \<in> set (split_ws s) \<Longrightarrow> w \<noteq> [] \<and> (\<forall>c \<in> set w. \<not> isspace c)"
proof (induction s rule: split_ws.induct)
  case 1
  then show ?case by simp
next
  case (2 c cs)
  show ?case
  proof (cases "isspace c")
    case True
    with 2 show ?thesis by simp
  next
    case False
    with 2(3) have "w = c # takeWhile (\<lambda>x. \<not> isspace x) cs
        \<or> w \<in> set (split_ws (dropWhile (\<lambda>x. \<not> isspace x) cs))"
      by simp
    then show ?thesis
    proof
      assume "w = c # takeWhile (\<lambda>x. \<not> isspace x) cs"
      with False show ?thesis by (auto dest: set_takeWhileD)
    next
      assume "w \<in> set (split_ws (dropWhile (\<lambda>x. \<not> isspace x) cs))"
      with 2(2)[OF False] show ?thesis by simp
    qed
  qed
qed

lemma split_ws_word_then:
  assumes "w \<noteq> []" "\<forall>c \<in> set w. \<not> isspace c" "rest = [] \<or> isspace (hd rest)"
  shows "split_ws (w @ rest) = w # split_ws rest"
proof -
  obtain c w' where w: "w = c # w'" using assms(1) by (cases w) auto
  have c: "\<not> isspace c" and w': "\<forall>x \<in> set w'. \<not> isspace x" using assms(2) w by auto
  have t: "takeWhile (\<lambda>x. \<not> isspace x) (w' @ rest) = w'"
    using w' assms(3) by (cases rest) (auto simp: takeWhile_append2)
  have d: "dropWhile (\<lambda>x. \<not> isspace x) (w' @ rest) = rest"
    using w' assms(3) by (cases rest) (auto simp: dropWhile_append2)
  show ?thesis using c by (simp add: w t d)
qed

lemma split_ws_join_sp:
  "\<forall>w \<in> set ws. w \<noteq> [] \<and> (\<forall>c \<in> set w. \<not> isspace c) \<Longrightarrow> split_ws (join_sp ws) = ws"
proof (induction ws rule: join_sp.induct)
  case 1
  then show ?case by simp
next
  case (2 w)
  then show ?case using split_ws_word_then[of w "[]"] by simp
next
  case (3 w v ws)
  have sp: "isspace CHR '' ''" by (simp add: isspace_def Let_def)
  have "split_ws (w @ CHR '' '' # join_sp (v # ws)) = w # split_ws (CHR '' '' # join_sp (v # ws))"
    using 3(2) by (intro split_ws_word_then) (simp_all add: sp)
  also have "\<dots> = w # split_ws (join_sp (v # ws))" by (simp add: sp)
  also have "\<dots> = w # v # ws" using 3 by simp
  finally show ?case by simp
qed

lemma py_slice_subset: "set (py_slice xs i j) \<subseteq> set xs"
  unfolding py_slice_def by (meson set_take_subset set_drop_subset subset_trans)

lemma split_ws_chunk:
  "split_ws (join_sp (py_slice (split_ws text) i j)) = py_slice (split_ws text) i j"
proof (rule split_ws_join_sp, rule ballI)
  fix w assume "w \<in> set (py_slice (split_ws text) i j)"
  then have "w \<in> set (split_ws text)" using py_slice_subset[of "split_ws text" i j] by auto
  then show "w \<noteq> [] \<and> (\<forall>c \<in> set w. \<not> isspace c)" by (rule split_ws_words)
qed

lemma split_ws_window:
  "split_ws (join_sp (take m (drop i (split_ws text)))) = take m (drop i (split_ws text))"
proof (rule split_ws_join_sp, rule ballI)
  fix w assume "w \<in> set (take m (drop i (split_ws text)))"
  then have "w \<in> set (split_ws text)" by (meson in_set_takeD in_set_dropD)
  then show "w \<noteq> [] \<and> (\<forall>c \<in> set w. \<not> isspace c)" by (rule split_ws_words)
qed

lemma join_sp_replicate:
  "join_sp (replicate (Suc n) ''w'') = ''w'' @ concat (replicate n '' w'')"
  by (induction n) simp_all


text \<open>
  Claim C5. For every text, \<open>max_tokens\<close> and \<open>overlap\<close> with \<open>overlap < max_tokens\<close>,
  \<open>chunk_text\<close> returns: the text itself, unchanged, as the only chunk when it has at most
  \<open>max_tokens\<close> words; otherwise one chunk \<open>" ".join(words[i:i+max_tokens])\<close> for each window
  start \<open>i = 0, s, 2s, \<dots>\<close> below the word count, with \<open>s = max_tokens - overlap\<close>. The words
  of each chunk are the words of its window. For a non-negative \<open>max_tokens\<close> these are the
  \<open>max_tokens\<close> words from word \<open>i\<close> on, fewer only where the text ends. A text of 600 words
  with \<open>max_tokens = 200\<close> and \<open>overlap = 50\<close> gives exactly four chunks, made of the words
  from 0, 150, 300 and 450 on; they have 200, 200, 200 and 150 words.
\<close>

theorem chunk_text_windows:
  assumes "overlap < max_tokens"
  shows "chunk_text text max_tokens overlap =
           Some (if int (length (split_ws text)) \<le> max_tokens then [text]
                 else map (\<lambda>i. join_sp (py_slice (split_ws text) i (i + max_tokens)))
                        (spec_window_starts (length (split_ws text)) (max_tokens - overlap)))
       \<and> (\<forall>i \<in> set (spec_window_starts (length (split_ws text)) (max_tokens - overlap)).
             split_ws (join_sp (py_slice (split_ws text) i (i + max_tokens)))
               = py_slice (split_ws text) i (i + max_tokens))
       \<and> (0 \<le> max_tokens \<longrightarrow>
            (\<forall>i \<in> set (spec_window_starts (length (split_ws text)) (max_tokens - overlap)).
               py_slice (split_ws text) i (i + max_tokens)
                 = take (nat max_tokens) (drop (nat i) (split_ws text))
               \<and> split_ws (join_sp (py_slice (split_ws text) i (i + max_tokens)))
                 = take (nat max_tokens) (drop (nat i) (split_ws text))
               \<and> length (split_ws (join_sp (py_slice (split_ws text) i (i + max_tokens))))
                 = min (nat max_tokens) (length (split_ws text) - nat i)))
       \<and> (length (split_ws text) = 600 \<longrightarrow>
            chunk_text text 200 50
              = Some (map (\<lambda>i. join_sp (take 200 (drop i (split_ws text)))) [0, 150, 300, 450])
            \<and> map (\<lambda>i. split_ws (join_sp (take 200 (drop i (split_ws text))))) [0, 150, 300, 450]
              = map (\<lambda>i. take 200 (drop i (split_ws text))) [0, 150, 300, 450]
            \<and> map (\<lambda>i. length (split_ws (join_sp (take 200 (drop i (split_ws text)))))) [0, 150, 300, 450]
              = [200, 200, 200, 150]
            \<and> length (take 200 (drop 450 (split_ws text))) < 200)"
proof (intro conjI impI ballI)
  have s: "0 < max_tokens - overlap" using assms by simp
  show "chunk_text text max_tokens overlap =
           Some (if int (length (split_ws text)) \<le> max_tokens then [text]
                 else map (\<lambda>i. join_sp (py_slice (split_ws text) i (i + max_tokens)))
                        (spec_window_starts (length (split_ws text)) (max_tokens - overlap)))"
    by (simp add: chunk_text_def Let_def chunk_loop_terminates[OF s] spec_window_starts_def o_def)
next
  fix i
  show "split_ws (join_sp (py_slice (split_ws text) i (i + max_tokens)))
               = py_slice (split_ws text) i (i + max_tokens)"
    by (rule split_ws_chunk)
next
  fix i
  assume m: "0 \<le> max_tokens"
    and i: "i \<in> set (spec_window_starts (length (split_ws text)) (max_tokens - overlap))"
  have i0: "0 \<le> i"
    using assms i spec_window_starts_nonneg[of "max_tokens - overlap" i] by simp
  show w: "py_slice (split_ws text) i (i + max_tokens)
                 = take (nat max_tokens) (drop (nat i) (split_ws text))"
    using i0 m by (simp add: py_slice_window)
  show "split_ws (join_sp (py_slice (split_ws text) i (i + max_tokens)))
                 = take (nat max_tokens) (drop (nat i) (split_ws text))"
    unfolding w by (rule split_ws_window)
  show "length (split_ws (join_sp (py_slice (split_ws text) i (i + max_tokens))))
                 = min (nat max_tokens) (length (split_ws text) - nat i)"
    unfolding w split_ws_window by (simp add: min.commute)
next
  assume n: "length (split_ws text) = 600"
  have s: "(0::int) < 200 - 50" by simp
  have "chunk_text text 200 50 = Some (map (\<lambda>i. join_sp (py_slice (split_ws text) i (i + 200))) [0, 150, 300, 450])"
    using n by (simp add: chunk_text_def Let_def chunk_loop_terminates[OF s] upt_conv_Cons)
  then show "chunk_text text 200 50
              = Some (map (\<lambda>i. join_sp (take 200 (drop i (split_ws text)))) [0, 150, 300, 450])"
    using py_slice_window[of 0 200 "split_ws text"] py_slice_window[of 150 200 "split_ws text"]
      py_slice_window[of 300 200 "split_ws text"] py_slice_window[of 450 200 "split_ws text"]
    by simp
next
  show "map (\<lambda>i. split_ws (join_sp (take 200 (drop i (split_ws text))))) [0, 150, 300, 450]
              = map (\<lambda>i. take 200 (drop i (split_ws text))) [0, 150, 300, 450]"
    by (simp only: split_ws_window)
next
  assume "length (split_ws text) = 600"
  then show "map (\<lambda>i. length (split_ws (join_sp (take 200 (drop i (split_ws text)))))) [0, 150, 300, 450]
              = [200, 200, 200, 150]"
    by (simp add: split_ws_window)
next
  assume "length (split_ws text) = 600"
  then show "length (take 200 (drop 450 (split_ws text))) < 200" by simp
qed

theorem chunk_text_windows_witness:
  "(50::int) < 200 \<and> (0::int) \<le> 200 \<and> length (split_ws text600) = 600
   \<and> 450 \<in> set (spec_window_starts (length (split_ws text600)) (200 - 50))
   \<and> chunk_text text600 200 50
       = Some [''w'' @ concat (replicate 199 '' w''), ''w'' @ concat (replicate 199 '' w''),
               ''w'' @ concat (replicate 199 '' w''), ''w'' @ concat (replicate 149 '' w'')]
   \<and> map (\<lambda>c. length (split_ws c))
         [''w'' @ concat (replicate 199 '' w''), ''w'' @ concat (replicate 199 '' w''),
          ''w'' @ concat (replicate 199 '' w''), ''w'' @ concat (replicate 149 '' w'')]
       = [200, 200, 200, 150]"
proof -
  have h: "(50::int) < 200" by simp
  have st: "spec_window_starts 600 150 = [0, 150, 300, 450]"
    by (simp add: spec_window_starts_def upt_conv_Cons)
  have j200: "join_sp (replicate 200 ''w'') = ''w'' @ concat (replicate 199 '' w'')"
    using join_sp_replicate[of 199] by simp
  have j150: "join_sp (replicate 150 ''w'') = ''w'' @ concat (replicate 149 '' w'')"
    using join_sp_replicate[of 149] by simp
  have t: "take 200 (replicate 600 ''w'') = replicate 200 ''w''"
    "take 200 (drop 150 (replicate 600 ''w'')) = replicate 200 ''w''"
    "take 200 (drop 300 (replicate 600 ''w'')) = replicate 200 ''w''"
    "take 200 (drop 450 (replicate 600 ''w'')) = replicate 150 ''w''"
    by simp_all
  have n: "length (split_ws text600) = 600" by (simp add: split_ws_text600)
  note d = chunk_text_windows[OF h, of text600, THEN conjunct2, THEN conjunct2, THEN conjunct2,
      THEN mp, OF n]
  have c: "chunk_text text600 200 50
              = Some (map (\<lambda>i. join_sp (take 200 (drop i (replicate 600 ''w'')))) [0, 150, 300, 450])"
    using d[THEN conjunct1] unfolding split_ws_text600 .
  have l: "map (\<lambda>i. length (split_ws (join_sp (take 200 (drop i (replicate 600 ''w'')))))) [0, 150, 300, 450]
              = [200, 200, 200, 150]"
    using d[THEN conjunct2, THEN conjunct2, THEN conjunct1] unfolding split_ws_text600 .
  have c': "chunk_text text600 200 50
       = Some [''w'' @ concat (replicate 199 '' w''), ''w'' @ concat (replicate 199 '' w''),
               ''w'' @ concat (replicate 199 '' w''), ''w'' @ concat (replicate 149 '' w'')]"
    using c by (simp only: list.map drop_0 t j200 j150)
  have l': "map (\<lambda>c. length (split_ws c))
         [''w'' @ concat (replicate 199 '' w''), ''w'' @ concat (replicate 199 '' w''),
          ''w'' @ concat (replicate 199 '' w''), ''w'' @ concat (replicate 149 '' w'')]
       = [200, 200, 200, 150]"
    using l by (simp only: list.map drop_0 t j200 j150)
  have m: "450 \<in> set (spec_window_starts (length (split_ws text600)) (200 - 50))"
    using st by (simp add: split_ws_text600)
  from h n m c' l' show ?thesis by simp
qed

text \<open>
  Claim C6, as amended. \<open>chunk_text\<close> has no check and no clamp on \<open>overlap\<close>. It returns
  exactly when the text has at most \<open>max_tokens\<close> words, or \<open>overlap < max_tokens\<close>, or the
  text has no word at all. With the defaults \<open>max_tokens = 200\<close> and \<open>overlap = 50\<close>, the only
  values the index build passes, it returns for every text.
\<close>

theorem chunk_text_returns_exactly_when:
  "((\<exists>r. chunk_text text max_tokens overlap = Some r) \<longleftrightarrow>
      int (length (split_ws text)) \<le> max_tokens \<or> overlap < max_tokens \<or> split_ws text = [])
   \<and> (\<exists>r. chunk_text text 200 50 = Some r)"
  using chunk_text_returns_iff[of "text" max_tokens overlap] chunk_text_returns_iff[of "text" 200 50]
  by simp

text \<open>
  Claim C6 as stated says that \<open>chunk_text\<close> returns on every input, \<open>overlap\<close> being clamped
  below \<open>max_tokens\<close>. On the three-word text \<open>"a b c"\<close> with \<open>max_tokens = 2\<close> and
  \<open>overlap = 2\<close> the index never advances and the call does not return.
\<close>

theorem chunk_text_no_clamp_diverges: "chunk_text ''a b c'' 2 2 = None"
proof -
  have w: "split_ws ''a b c'' = [''a'', ''b'', ''c'']"
    by (simp add: isspace_def Let_def)
  show ?thesis
    unfolding chunk_text_def w by (simp add: chunk_loop_None)
qed

section \<open>Properties of the retrieval index\<close>

lemma collect_scoped:
  assumes "\<forall>h \<in> set results. P (snd h)" "\<forall>i \<in> set cands. P (ms ! i)"
  shows "\<forall>h \<in> set (collect ms cands k nbrs results). P (snd h)"
  using assms
  by (induction ms cands k nbrs results rule: collect.induct) (auto simp: Let_def)

lemma candidate_indices_scoped:
  "i \<in> set (candidate_indices ms (Some A)) \<Longrightarrow> m_patient_id (ms ! i) = Some A"
  by (simp add: candidate_indices_def)

lemma set_py_upto: "set (py_upto xs k) \<subseteq> set xs"
  by (auto simp: py_upto_def dest: in_set_takeD)

lemma set_sorted_desc: "set (sorted_desc xs) = set xs"
  by (simp add: sorted_desc_def)

lemma search_empty:
  "meta r = [] \<or> candidate_indices (meta r) pid = [] \<Longrightarrow> search fs r pid q k = Inr []"
  by (auto simp: search_def Let_def)

lemma search_approx:
  "meta r \<noteq> [] \<Longrightarrow> candidate_indices (meta r) pid \<noteq> [] \<Longrightarrow> index r = Some knn_query \<Longrightarrow>
   search fs r pid q k =
     (case knn_query q (min (k * 3) (int (length (meta r)))) of
        Inl e \<Rightarrow> Inl e
      | Inr nbrs \<Rightarrow> Inr (collect (meta r) (candidate_indices (meta r) pid) k nbrs []))"
  by (simp add: search_def Let_def)

lemma search_brute:
  "meta r \<noteq> [] \<Longrightarrow> candidate_indices (meta r) pid \<noteq> [] \<Longrightarrow> index r = None \<Longrightarrow>
   search fs r pid q k =
     (case stored_embeddings fs of
        None \<Rightarrow> Inr []
      | Some rows \<Rightarrow>
          if \<exists>i \<in> set (candidate_indices (meta r) pid). rows \<le> i
          then Inl (IndexError ''index out of bounds'')
          else Inr (py_upto
                     (sorted_desc (map (\<lambda>i. (similarity fs q i, meta r ! i))
                                       (candidate_indices (meta r) pid)))
                     k))"
  by (simp add: search_def Let_def)

lemma search_patient_scoped:
  assumes "search fs r (Some A) q k = Inr hits"
  shows "\<forall>h \<in> set hits. m_patient_id (snd h) = Some A"
proof -
  let ?cands = "candidate_indices (meta r) (Some A)"
  have c: "\<forall>i \<in> set ?cands. m_patient_id (meta r ! i) = Some A"
    by (simp add: candidate_indices_scoped)
  show ?thesis
  proof (cases "meta r = [] \<or> ?cands = []")
    case True
    from search_empty[OF this] assms have "hits = []" by simp
    then show ?thesis by simp
  next
    case False
    then have ne: "meta r \<noteq> []" "?cands \<noteq> []" by simp_all
    show ?thesis
    proof (cases "index r")
      case (Some knn_query)
      from search_approx[OF ne Some] assms
      obtain nbrs where "hits = collect (meta r) ?cands k nbrs []"
        by (auto split: sum.splits)
      with c collect_scoped[of "[]" "\<lambda>m. m_patient_id m = Some A" ?cands "meta r" k nbrs]
      show ?thesis by simp
    next
      case None
      from search_brute[OF ne None] assms have
        "hits = [] \<or> hits = py_upto (sorted_desc (map (\<lambda>i. (similarity fs q i, meta r ! i)) ?cands)) k"
        by (auto split: option.splits if_splits)
      then show ?thesis
      proof
        assume "hits = []" then show ?thesis by simp
      next
        assume "hits = py_upto (sorted_desc (map (\<lambda>i. (similarity fs q i, meta r ! i)) ?cands)) k"
        then have "set hits \<subseteq> (\<lambda>i. (similarity fs q i, meta r ! i)) ` set ?cands"
          using set_py_upto[of "sorted_desc (map (\<lambda>i. (similarity fs q i, meta r ! i)) ?cands)" k]
          by (simp add: set_sorted_desc)
        with c show ?thesis by auto
      qed
    qed
  qed
qed

text \<open>
  Claim C1. For every patient id \<open>A\<close>, query text and \<open>k\<close>, every hit that
  \<open>RAGIndex.query(A, q, k)\<close> returns carries the metadata of a chunk whose \<open>patient_id\<close> is
  \<open>A\<close>, hence never that of another patient \<open>B\<close>; this holds on the approximate path, for
  whatever labels \<open>knn_query\<close> returns, and on the brute-force path.
\<close>

theorem query_patient_scoped:
  assumes "query fs r (Some A) q k = Inr hits"
  shows "\<forall>h \<in> set hits. m_patient_id (snd h) = Some A \<and> (\<forall>B. B \<noteq> A \<longrightarrow> m_patient_id (snd h) \<noteq> Some B)"
  using search_patient_scoped[of fs "ensure_loaded fs r" A q k hits] assms
  by (auto simp: query_def)

theorem query_patient_scoped_witness:
  "query files0 hnsw_index (Some 1) ''cough'' 2 = Inr [(9/10, shared_meta ! 0), (8/10, shared_meta ! 1)]
   \<and> query files0 brute_index (Some 1) ''cough'' 2 = Inr [(9/10, shared_meta ! 0), (9/10, shared_meta ! 1)]
   \<and> m_patient_id (shared_meta ! 0) = Some 1 \<and> m_patient_id (shared_meta ! 1) = Some 1
   \<and> m_patient_id (shared_meta ! 0) \<noteq> Some 2 \<and> m_patient_id (shared_meta ! 1) \<noteq> Some 2"
proof -
  have a: "query files0 hnsw_index (Some 1) ''cough'' 2 = Inr [(9/10, shared_meta ! 0), (8/10, shared_meta ! 1)]"
    by (simp add: query_def search_def ensure_loaded_def hnsw_index_def shared_meta_def nearest3_def
        candidate_indices_def Let_def upt_conv_Cons)
  have b: "query files0 brute_index (Some 1) ''cough'' 2 = Inr [(9/10, shared_meta ! 0), (9/10, shared_meta ! 1)]"
    by (simp add: query_def search_def ensure_loaded_def brute_index_def files0_def shared_meta_def
        candidate_indices_def Let_def upt_conv_Cons py_upto_def py_index_def sorted_desc_def)
  show ?thesis
    using query_patient_scoped[OF a] query_patient_scoped[OF b] a b by auto
qed

subsection \<open>How many hits each path returns\<close>

lemma length_py_upto: "0 \<le> k \<Longrightarrow> length (py_upto xs k) = min (nat k) (length xs)"
  by (simp add: py_upto_def py_index_def min.commute)

lemma brute_force_count:
  assumes "meta r \<noteq> []" "index r = None" "stored_embeddings fs = Some rows"
    and "length (meta r) \<le> rows" "0 \<le> k"
  shows "\<exists>hits. search fs r pid q k = Inr hits
           \<and> length hits = min (nat k) (length (candidate_indices (meta r) pid))"
proof (cases "candidate_indices (meta r) pid = []")
  case True
  then show ?thesis by (simp add: search_empty)
next
  case False
  have "\<not> (\<exists>i \<in> set (candidate_indices (meta r) pid). rows \<le> i)"
    using assms(4) by (auto simp: candidate_indices_def)
  then show ?thesis
    using search_brute[OF assms(1) False assms(2), of fs q k] assms(3,5)
    by (simp add: length_py_upto sorted_desc_def)
qed

text \<open>
  Claim C9 says that on the approximate path a patient with at least \<open>k\<close> chunks in the
  shared index always gets \<open>k\<close> hits, by asking again with a larger multiplier when the
  filter leaves too few. The source asks once, for \<open>min(3k, len(meta))\<close> neighbours. In the
  index \<open>shared_meta\<close> patient 2 owns one chunk, the three nearest neighbours of the query belong
  to patient 1, and \<open>k = 1\<close>: the approximate path returns no hit, while the brute-force path
  on the same data returns the patient's chunk.
\<close>

theorem approx_query_underflows:
  "query files0 hnsw_index (Some 2) ''cough'' 1 = Inr []
   \<and> length (candidate_indices (meta hnsw_index) (Some 2)) = 1
   \<and> query files0 brute_index (Some 2) ''cough'' 1 = Inr [(1/10, shared_meta ! 3)]"
proof -
  have a: "query files0 hnsw_index (Some 2) ''cough'' 1 = Inr []"
    by (simp add: query_def search_def ensure_loaded_def hnsw_index_def shared_meta_def nearest3_def
        candidate_indices_def Let_def upt_conv_Cons)
  have b: "length (candidate_indices (meta hnsw_index) (Some 2)) = 1"
    by (simp add: hnsw_index_def shared_meta_def candidate_indices_def upt_conv_Cons)
  have c: "query files0 brute_index (Some 2) ''cough'' 1 = Inr [(1/10, shared_meta ! 3)]"
    by (simp add: query_def search_def ensure_loaded_def brute_index_def files0_def shared_meta_def
        candidate_indices_def Let_def upt_conv_Cons py_upto_def py_index_def sorted_desc_def)
  from a b c show ?thesis by simp
qed

section \<open>Properties of the summary cache\<close>

lemma cache_of_delete: "cache_of (cache_delete d pid) pid = []"
  by (simp add: cache_of_def cache_delete_def)

lemma cache_of_delete_other: "q \<noteq> pid \<Longrightarrow> cache_of (cache_delete d pid) q = cache_of d q"
  by (simp add: cache_of_def cache_delete_def) (metis (mono_tags, lifting) filter_cong)

lemma cache_of_add:
  "cache_of (cache_add d pid src v now) pid =
     cache_of d pid @ [\<lparr>sc_id = next_id (map sc_id (cache d)), sc_patient_id = pid, sc_source = Some src,
                        sc_summary_json = Json v, sc_updated_at = now\<rparr>]"
  by (simp add: cache_of_def cache_add_def)

lemma cache_put_single: "length (cache_of (cache_put d pid src v now) pid) = 1"
  by (simp add: cache_put_def cache_of_add cache_of_delete)

lemma cache_put_row:
  "cache_of (cache_put d pid src v now) pid =
     [\<lparr>sc_id = next_id (map sc_id (cache (cache_delete d pid))), sc_patient_id = pid,
       sc_source = Some src, sc_summary_json = Json v, sc_updated_at = now\<rparr>]"
  by (simp add: cache_put_def cache_of_add cache_of_delete)

lemma attempt_adds_row:
  "attempt env d pid rs g src = Some (s, d') \<Longrightarrow>
   length (cache_of d' pid) = Suc (length (cache_of d pid))"
  by (auto simp: attempt_def cache_of_add split: sum.splits)

lemma app_generate_adds_row:
  assumes "app_generate env d pid rs = Some (s, d')"
  shows "length (cache_of d' pid) = Suc (length (cache_of d pid))"
  using assms
  by (auto simp: app_generate_def split: option.splits dest: attempt_adds_row)

lemma summarize_changes_cache_by_put:
  "snd (summarize ps now d pid) = d
   \<or> (\<exists>provider res. snd (summarize ps now d pid) = cache_put d pid provider res now)"
  by (auto simp: summarize_def Let_def split: option.splits sum.splits prod.splits)

lemma summarize_single_row:
  "snd (summarize ps now d pid) \<noteq> d \<Longrightarrow> length (cache_of (snd (summarize ps now d pid)) pid) = 1"
  using summarize_changes_cache_by_put[of ps now d pid]
  by (auto simp: cache_put_def cache_of_def cache_add_def cache_delete_def)

text \<open>
  Claim C2 says that every cache write of summarize replaces the patient's earlier rows:
  delete, then insert, as one unit. The write of app/api/summarize.py does
  (\<open>cache_put_single\<close>, \<open>summarize_single_row\<close>): after it the patient has exactly one row. The write of
  app.py only adds a row (\<open>app_generate_adds_row\<close>). Its lookup skips a row whose text does
  not parse and goes on to generate; with such a row for patient 7 in the table and OpenRouter
  answering, the table then holds two rows for the patient, the old one under the new one.
  On the same table the endpoint of app/api/summarize.py leaves the new row alone.
\<close>

theorem app_summarize_leaves_two_rows:
  "map sc_id (cache_of (snd (app_summarize env_up db_broken 7 5)) 7) = [1, 2]
   \<and> map sc_summary_json (cache_of (snd (app_summarize env_up db_broken 7 5)) 7)
       = [NotJson ''{one_line: '', Json (mark_source summary1 ''openrouter'')]
   \<and> map sc_id (cache_of (snd (summarize providers_up 200 db_broken 7)) 7) = [1]
   \<and> map sc_summary_json (cache_of (snd (summarize providers_up 200 db_broken 7)) 7)
       = [Json (PDict [(''one_line'', PStr ''Cough''), (''bullets'', PList [PStr ''persistent cough'']),
                       (''sources'', PList [PDict [(''note_id'', PInt 1), (''score'', PFloat 1)]]),
                       (''ai_provider'', PStr ''openrouter'')])]"
  by (simp add: app_summarize_def env_up_def db_broken_def broken_row_def app_cached_payload_def
      cache_of_def newest_first_def first_row_def app_generate_def attempt_def answers_def
      cache_add_def next_id_def summarize_def providers_up_def find_patient_def ann_def
      api_cached_payload_def notes_of_def note1_def summarize_generate_def retrieve_notes_def
      final_result_def summary1_def setdefault_def dict_get_def cache_put_def cache_delete_def
      from_cache_def mark_source_def)

lemma create_note_keeps_cache: "cache (snd (create_note now d pid txt nd)) = cache d"
  by (simp add: create_note_def Let_def split: option.splits)

lemma update_note_keeps_cache: "cache (snd (update_note d nid txt)) = cache d"
  by (simp add: update_note_def split: option.splits)

lemma delete_note_keeps_cache: "cache (snd (delete_note d nid)) = cache d"
  by (simp add: delete_note_def split: option.splits)

lemma app_add_note_invalidates:
  "find_patient d pid = Some p \<Longrightarrow> cache_of (snd (app_add_note now d pid txt)) pid = []"
  by (simp add: app_add_note_def Let_def cache_of_delete)

lemma app_delete_note_invalidates:
  "find_note d nid = Some n \<Longrightarrow> cache_of (snd (app_delete_note d nid)) (n_patient_id n) = []"
  by (simp add: app_delete_note_def Let_def cache_of_delete)

text \<open>
  Claim C3 says that creating, editing or deleting a note deletes the patient's cache rows.
  \<open>add_note\<close> and \<open>delete_note\<close> of app.py do (\<open>app_add_note_invalidates\<close>,
  \<open>app_delete_note_invalidates\<close>). The three endpoints of app/api/notes.py never touch the
  cache table (\<open>create_note_keeps_cache\<close>, \<open>update_note_keeps_cache\<close>,
  \<open>delete_note_keeps_cache\<close>): with a cached summary for patient 7, the row written before
  the change is still there after each of them.
\<close>

theorem notes_api_keeps_stale_cache:
  "cache_of (snd (create_note 200 db_cached 7 ''new note'' None)) 7 = [cached_row]
   \<and> cache_of (snd (update_note db_cached 1 ''edited'')) 7 = [cached_row]
   \<and> cache_of (snd (delete_note db_cached 1)) 7 = [cached_row]
   \<and> fst (create_note 200 db_cached 7 ''new note'' None)
       = Inr \<lparr>n_id = 2, n_patient_id = 7, n_note_date = 200, n_text = Some ''new note''\<rparr>
   \<and> cache_of (snd (app_add_note 200 db_cached 7 (Some ''new note''))) 7 = []"
  by (simp add: create_note_def update_note_def delete_note_def app_add_note_def db_cached_def
      find_patient_def find_note_def ann_def note1_def cached_row_def cache_of_def cache_delete_def
      next_id_def Let_def)

section \<open>The fallback of summarize\<close>



lemma summarize_fallback_leaves_db:
  assumes "find_patient d pid = Some p" and "api_cached_payload d pid now = None"
    and "notes_of d pid \<noteq> []"
    and "summarize_generate ps (retrieve_notes (notes_of d pid)) = Inl e"
  shows "summarize ps now d pid = (basic_summary p (notes_of d pid) e, d)"
  using assms by (simp add: summarize_def Let_def)

lemma basic_summary_without_text:
  "n \<in> set (take 3 ns) \<Longrightarrow> n_text n = None \<Longrightarrow>
   basic_summary p ns e = Inl (TypeError ''NoneType object is not subscriptable'')"
  by (auto simp: basic_summary_def)





section \<open>Properties of the validators\<close>

lemma openrouter_parse_direct:
  "loads lib text = Some parsed \<Longrightarrow> openrouter_parse lib text = Inr parsed"
  by (simp add: openrouter_parse_def)

lemma openrouter_parse_braces:
  assumes "loads lib text = None"
    and "py_find text CHR ''{'' \<noteq> - 1" "py_rfind text CHR ''}'' \<noteq> - 1"
    and "py_find text CHR ''{'' < py_rfind text CHR ''}''"
  shows "openrouter_parse lib text =
     (case loads lib (py_slice text (py_find text CHR ''{'') (py_rfind text CHR ''}'' + 1)) of
        Some parsed \<Rightarrow> Inr parsed
      | None \<Rightarrow> Inl (ValueError ''JSONDecodeError''))"
  using assms by (simp add: openrouter_parse_def Let_def)

lemma openrouter_parse_no_braces:
  assumes "loads lib text = None"
    and "py_find text CHR ''{'' = - 1 \<or> py_rfind text CHR ''}'' = - 1
         \<or> \<not> py_find text CHR ''{'' < py_rfind text CHR ''}''"
  shows "openrouter_parse lib text =
     Inl (ValueError (''OpenRouter: failed to parse JSON. Output (trunc): '' @ take 1000 text))"
  using assms by (auto simp: openrouter_parse_def Let_def)

lemma openrouter_parse_error_message:
  "openrouter_parse lib text = Inl e \<Longrightarrow> e \<noteq> ValueError ''OpenRouter: Summary JSON missing required keys''"
  by (auto simp: openrouter_parse_def Let_def split: option.splits if_splits)

lemma openrouter_schema_error_iff:
  "openrouter_validate lib text = Inl (ValueError ''OpenRouter: Summary JSON missing required keys'')
   \<longleftrightarrow> (\<exists>parsed. openrouter_parse lib text = Inr parsed \<and> \<not> has_required_keys parsed)"
  using openrouter_parse_error_message[of lib "text"]
  by (auto simp: openrouter_validate_def split: sum.splits)

lemma openrouter_validate_unchanged:
  "openrouter_validate lib text = Inr v \<Longrightarrow> openrouter_parse lib text = Inr v"
  by (auto simp: openrouter_validate_def split: sum.splits if_splits)

lemma map_of_dict_set: "map_of (dict_set kvs k v) k = Some v"
  by (induction kvs) auto

lemma map_of_dict_set_other: "k' \<noteq> k \<Longrightarrow> map_of (dict_set kvs k v) k' = map_of kvs k'"
  by (induction kvs) auto

lemma hf_bullets_at_most_4:
  "\<exists>kvs' bs. hf_enforce_brevity lib limit kvs = PDict kvs' \<and> map_of kvs' ''bullets'' = Some (PList bs)
     \<and> length bs \<le> 4"
  by (simp add: hf_enforce_brevity_def Let_def map_of_dict_set)

lemma prose_scalar:
  "py_find prose_scalar_text CHR ''{'' = 9"
  "py_rfind prose_scalar_text CHR ''}'' = 53"
  "py_slice prose_scalar_text 9 54 = scalar_text"
  "scn_loads prose_scalar_text = None"
  by (simp_all add: py_find_def py_rfind_def prose_scalar_text_def scalar_text_def py_slice_def
      py_index_def scn_loads_def long_text_def)

text \<open>
  Claim C7 describes the validation of a provider's raw text: parse the whole text, else
  the text from the first opening brace to the last closing brace, else fail; fail with a
  schema error exactly when the parse succeeds and a required key is absent; turn a scalar
  \<open>bullets\<close> into a one-element list. The order of the attempts and the schema error are as the
  claim says in openrouter\_wrapper.py (\<open>openrouter_parse_direct\<close>, \<open>openrouter_parse_braces\<close>,
  \<open>openrouter_parse_no_braces\<close>, \<open>openrouter_schema_error_iff\<close>). The coercion is missing there
  and in cohere\_wrapper.py: what they return is the parsed value as it is
  (\<open>openrouter_validate_unchanged\<close>). For a summary whose \<open>bullets\<close> is the string
  \<open>"no fever"\<close> both return the string; hf\_wrapper.py, on the same summary after a word of
  prose, returns the one-element list.
\<close>

theorem openrouter_keeps_scalar_bullets:
  "openrouter_validate (lib\<lparr>loads := scn_loads\<rparr>) scalar_text
     = Inr (PDict [(''one_line'', PStr ''Stable''), (''bullets'', PStr ''no fever'')])
   \<and> cohere_validate (lib\<lparr>loads := scn_loads\<rparr>) scalar_text
     = Inr (PDict [(''one_line'', PStr ''Stable''), (''bullets'', PStr ''no fever'')])
   \<and> hf_validate (lib\<lparr>loads := scn_loads\<rparr>) 12 prose_scalar_text
     = Inr (PDict [(''one_line'', PStr ''Stable''), (''bullets'', PList [PStr ''no fever''])])"
proof (intro conjI)
  show "openrouter_validate (lib\<lparr>loads := scn_loads\<rparr>) scalar_text
     = Inr (PDict [(''one_line'', PStr ''Stable''), (''bullets'', PStr ''no fever'')])"
    by (simp add: openrouter_validate_def openrouter_parse_def scn_loads_def scalar_value_def
        has_required_keys_def)
  have st: "strip scalar_text = scalar_text"
    by (simp add: strip_def scalar_text_def isspace_def Let_def)
  show "cohere_validate (lib\<lparr>loads := scn_loads\<rparr>) scalar_text
     = Inr (PDict [(''one_line'', PStr ''Stable''), (''bullets'', PStr ''no fever'')])"
    by (simp add: cohere_validate_def st cohere_parse_def scn_loads_def scalar_value_def
        has_required_keys_def normalize_sources_def)
  have sh: "shorten_sentence ''Stable'' 12 = ''Stable''" "shorten_sentence ''no fever'' 12 = ''no fever''"
    by (simp_all add: shorten_sentence_def strip_def isspace_def Let_def)
  show "hf_validate (lib\<lparr>loads := scn_loads\<rparr>) 12 prose_scalar_text
     = Inr (PDict [(''one_line'', PStr ''Stable''), (''bullets'', PList [PStr ''no fever''])])"
    by (simp add: hf_validate_def hf_generated_text_def prose_scalar Let_def)
       (simp add: scn_loads_def scalar_value_def has_required_keys_def hf_enforce_brevity_def
          dict_get_def py_str_def sh Let_def)
qed

lemma prose_long:
  "py_find prose_long_text CHR ''{'' = 9"
  "py_rfind prose_long_text CHR ''}'' = 143"
  "py_slice prose_long_text 9 144 = long_text"
  "scn_loads prose_long_text = None"
  by (simp_all add: py_find_def py_rfind_def prose_long_text_def long_text_def py_slice_def
      py_index_def scn_loads_def scalar_text_def)

lemma scn_loads_long: "scn_loads long_text = Some long_value"
  by (simp add: scn_loads_def long_text_def scalar_text_def)

lemma one_line20:
  "split_ws ''w1 w2 w3 w4 w5 w6 w7 w8 w9 w10 w11 w12 w13 w14 w15 w16 w17 w18 w19 w20''
     = [''w1'', ''w2'', ''w3'', ''w4'', ''w5'', ''w6'', ''w7'', ''w8'', ''w9'', ''w10'', ''w11'', ''w12'',
        ''w13'', ''w14'', ''w15'', ''w16'', ''w17'', ''w18'', ''w19'', ''w20'']"
  by (simp add: isspace_def Let_def)

lemma shorten20:
  "shorten_sentence ''w1 w2 w3 w4 w5 w6 w7 w8 w9 w10 w11 w12 w13 w14 w15 w16 w17 w18 w19 w20'' 12
     = ''w1 w2 w3 w4 w5 w6 w7 w8 w9 w10 w11 w12...''"
proof -
  have s: "strip ''w1 w2 w3 w4 w5 w6 w7 w8 w9 w10 w11 w12 w13 w14 w15 w16 w17 w18 w19 w20''
         = ''w1 w2 w3 w4 w5 w6 w7 w8 w9 w10 w11 w12 w13 w14 w15 w16 w17 w18 w19 w20''"
    by (simp add: strip_def isspace_def Let_def)
  show ?thesis
    unfolding shorten_sentence_def s one_line20
    by (simp add: py_upto_def py_index_def)
qed

lemma shorten_b:
  "shorten_sentence ''b1'' 12 = ''b1''" "shorten_sentence ''b2'' 12 = ''b2''"
  "shorten_sentence ''b3'' 12 = ''b3''" "shorten_sentence ''b4'' 12 = ''b4''"
  by (simp_all add: shorten_sentence_def strip_def isspace_def Let_def)

text \<open>
  Claim C8 says that every parsed provider response is shortened before it is returned:
  \<open>one_line\<close> cut to its word budget with an ellipsis, \<open>bullets\<close> cut to four entries.
  openrouter\_wrapper.py returns a \<open>one_line\<close> of 20 words and a list of 6 bullets unchanged,
  and \<open>final_result\<close> of app/api/summarize.py passes them on. hf\_wrapper.py, on the same
  summary after a word of prose, returns 12 words followed by \<open>...\<close> and the first 4
  bullets (\<open>hf_bullets_at_most_4\<close> for every input).
\<close>

theorem openrouter_no_brevity:
  "openrouter_validate (lib\<lparr>loads := scn_loads\<rparr>) long_text
     = Inr (PDict [(''one_line'', PStr ''w1 w2 w3 w4 w5 w6 w7 w8 w9 w10 w11 w12 w13 w14 w15 w16 w17 w18 w19 w20''),
                   (''bullets'', PList [PStr ''b1'', PStr ''b2'', PStr ''b3'', PStr ''b4'', PStr ''b5'', PStr ''b6''])])
   \<and> length (split_ws ''w1 w2 w3 w4 w5 w6 w7 w8 w9 w10 w11 w12 w13 w14 w15 w16 w17 w18 w19 w20'') = 20
   \<and> final_result long_value ''openrouter'' []
     = Inr (PDict [(''one_line'', PStr ''w1 w2 w3 w4 w5 w6 w7 w8 w9 w10 w11 w12 w13 w14 w15 w16 w17 w18 w19 w20''),
                   (''bullets'', PList [PStr ''b1'', PStr ''b2'', PStr ''b3'', PStr ''b4'', PStr ''b5'', PStr ''b6'']),
                   (''sources'', PList []), (''ai_provider'', PStr ''openrouter'')])
   \<and> hf_validate (lib\<lparr>loads := scn_loads\<rparr>) 12 prose_long_text
     = Inr (PDict [(''one_line'', PStr ''w1 w2 w3 w4 w5 w6 w7 w8 w9 w10 w11 w12...''),
                   (''bullets'', PList [PStr ''b1'', PStr ''b2'', PStr ''b3'', PStr ''b4''])])"
proof (intro conjI)
  show "openrouter_validate (lib\<lparr>loads := scn_loads\<rparr>) long_text
     = Inr (PDict [(''one_line'', PStr ''w1 w2 w3 w4 w5 w6 w7 w8 w9 w10 w11 w12 w13 w14 w15 w16 w17 w18 w19 w20''),
                   (''bullets'', PList [PStr ''b1'', PStr ''b2'', PStr ''b3'', PStr ''b4'', PStr ''b5'', PStr ''b6''])])"
    by (simp add: openrouter_validate_def openrouter_parse_def scn_loads_long long_value_def
        has_required_keys_def)
  show "length (split_ws ''w1 w2 w3 w4 w5 w6 w7 w8 w9 w10 w11 w12 w13 w14 w15 w16 w17 w18 w19 w20'') = 20"
    unfolding one_line20 by simp
  show "final_result long_value ''openrouter'' []
     = Inr (PDict [(''one_line'', PStr ''w1 w2 w3 w4 w5 w6 w7 w8 w9 w10 w11 w12 w13 w14 w15 w16 w17 w18 w19 w20''),
                   (''bullets'', PList [PStr ''b1'', PStr ''b2'', PStr ''b3'', PStr ''b4'', PStr ''b5'', PStr ''b6'']),
                   (''sources'', PList []), (''ai_provider'', PStr ''openrouter'')])"
    by (simp add: final_result_def long_value_def setdefault_def dict_get_def Let_def)
  show "hf_validate (lib\<lparr>loads := scn_loads\<rparr>) 12 prose_long_text
     = Inr (PDict [(''one_line'', PStr ''w1 w2 w3 w4 w5 w6 w7 w8 w9 w10 w11 w12...''),
                   (''bullets'', PList [PStr ''b1'', PStr ''b2'', PStr ''b3'', PStr ''b4''])])"
    by (simp add: hf_validate_def hf_generated_text_def prose_long Let_def)
       (simp add: scn_loads_long long_value_def has_required_keys_def hf_enforce_brevity_def
          dict_get_def py_str_def shorten20 shorten_b Let_def)
qed

section \<open>The question-answering endpoint\<close>

lemma qa_try_block_sources:
  assumes "qa_try_block ps rs question = Inr resp"
  shows "qa_error resp = None \<and> length (qa_sources resp) \<le> 3
         \<and> (\<forall>s \<in> set (qa_sources resp). length (qs_snippet s) \<le> 200)"
proof -
  from assms obtain ai_result provider where
    n: "qa_normalize ai_result provider rs question = Inr resp"
    by (auto simp: qa_try_block_def split: sum.splits prod.splits)
  then obtain kvs where "ai_result = PDict kvs"
    by (cases ai_result) (simp_all add: qa_normalize_def)
  with n have r: "qa_error resp = None"
    "qa_sources resp = map (\<lambda>r. \<lparr>qs_note_id = r_note_id r, qs_snippet = take 200 (r_snippet r),
                                         qs_relevance = r_score r\<rparr>) (take 3 rs)"
    by (auto simp: qa_normalize_def)
  then show ?thesis by auto
qed

text \<open>
  Claim C10. For a patient that exists, \<open>qa\<close> of app/api/qa.py always returns a response.
  When the provider chain or the normalisation raises \<open>e\<close>, the response has the answer
  \<open>"I encountered an error while processing your question: <question>. Error: <e>"\<close>, no
  sources and \<open>error = True\<close>. Otherwise it has at most 3 sources, each with a snippet of
  at most 200 characters, and no \<open>error\<close> key.
\<close>

theorem qa_never_raises:
  assumes "find_patient d patient_id = Some p"
  shows "qa ps d patient_id question =
           Inr (case qa_try_block ps (retrieve_notes (notes_of d patient_id)) question of
                  Inl e \<Rightarrow> \<lparr>qa_answer = PStr (''I encountered an error while processing your question: ''
                                              @ question @ ''. Error: '' @ str_exn e),
                            qa_sources = [], qa_confidence = None, qa_ai_provider = None,
                            qa_error = Some True\<rparr>
                | Inr resp \<Rightarrow> resp)
         \<and> (\<forall>resp. qa_try_block ps (retrieve_notes (notes_of d patient_id)) question = Inr resp \<longrightarrow>
                qa_error resp = None \<and> length (qa_sources resp) \<le> 3
                \<and> (\<forall>s \<in> set (qa_sources resp). length (qs_snippet s) \<le> 200))"
  using assms qa_try_block_sources[of ps "retrieve_notes (notes_of d patient_id)" question]
  by (auto simp: qa_def qa_error_response_def split: sum.splits)


theorem qa_never_raises_witness:
  "find_patient db_fresh 7 = Some ann
   \<and> qa providers_none db_fresh 7 ''why cough?'' =
       Inr \<lparr>qa_answer = PStr ''I encountered an error while processing your question: why cough?. Error: No module named mock_ai_wrapper'',
            qa_sources = [], qa_confidence = None, qa_ai_provider = None, qa_error = Some True\<rparr>
   \<and> qa providers_up db_fresh 7 ''why cough?'' =
       Inr \<lparr>qa_answer = PStr ''Cough'',
            qa_sources = [\<lparr>qs_note_id = 1, qs_snippet = ''persistent cough'', qs_relevance = 1\<rparr>],
            qa_confidence = Some (PFloat (7/10)), qa_ai_provider = Some ''openrouter'',
            qa_error = None\<rparr>"
proof -
  have h: "find_patient db_fresh 7 = Some ann"
    by (simp add: find_patient_def db_fresh_def ann_def)
  have n: "qa_try_block providers_none (retrieve_notes (notes_of db_fresh 7)) ''why cough?''
             = Inl (ImportError ''No module named mock_ai_wrapper'')"
    by (simp add: qa_try_block_def try_answer_with_providers_def providers_none_def)
  have u: "qa_try_block providers_up (retrieve_notes (notes_of db_fresh 7)) ''why cough?''
             = Inr \<lparr>qa_answer = PStr ''Cough'',
                    qa_sources = [\<lparr>qs_note_id = 1, qs_snippet = ''persistent cough'', qs_relevance = 1\<rparr>],
                    qa_confidence = Some (PFloat (7/10)), qa_ai_provider = Some ''openrouter'',
                    qa_error = None\<rparr>"
    by (simp add: qa_try_block_def try_answer_with_providers_def providers_up_def answers_def
        summary1_def qa_normalize_def dict_get_def py_or_def retrieve_notes_def notes_of_def
        db_fresh_def note1_def strip_def isspace_def Let_def)
  show ?thesis
    using qa_never_raises[OF h, of providers_none "''why cough?''"]
      qa_never_raises[OF h, of providers_up "''why cough?''"] h
    by (simp add: n u)
qed

end
